theory Spec2Isabelle
  imports Complex_Main "HOL-Library.Multiset"
begin

section \<open>Data model of the timeline component\<close>

text \<open>
  A \<^verbatim>\<open>Date\<close> is represented by its time value, the number of milliseconds since the
  epoch (\<^verbatim>\<open>getTime()\<close>); comparing two dates with \<^verbatim>\<open><\<close> compares these numbers.
  Event timestamps (\<^verbatim>\<open>start_time\<close>, \<^verbatim>\<open>end_time\<close>) are numbers of Unix seconds and may
  carry a fraction; a number is taken as the rational it denotes (rounding of floating
  point arithmetic is left out).  The clock reads of one synchronous run
  (\<^verbatim>\<open>new Date()\<close>) are passed in as the argument \<open>now\<close>.
\<close>

type_synonym date = int

text \<open>
  Conversion of a number to an integer by dropping its fraction (towards zero): what
  \<^verbatim>\<open>new Date(number)\<close> does with a number of milliseconds, and what the \<^verbatim>\<open>toInteger\<close> of
  the date-fns library (version 2, not part of this file) does inside \<^verbatim>\<open>fromUnixTime\<close>.
\<close>

definition toInteger :: "rat \<Rightarrow> int" where
  "toInteger x = (if x < 0 then \<lceil>x\<rceil> else \<lfloor>x\<rfloor>)"

definition new_Date :: "rat \<Rightarrow> date" where
  "new_Date ms = toInteger ms"

record FrigateEvent =
  event_id :: string
  event_label :: string
  start_time :: rat
  end_time :: "rat option"

text \<open>\<^verbatim>\<open>if (event.end_time)\<close>: an absent, null or zero end time is falsy.\<close>

definition has_end_time :: "FrigateEvent \<Rightarrow> bool" where
  "has_end_time event = (case end_time event of None \<Rightarrow> False | Some t \<Rightarrow> t \<noteq> 0)"

datatype FrigateBrowseMediaSource = BrowseMedia
  (title: string)
  (media_class: string)
  (media_content_type: string)
  (media_content_id: string)
  (can_play: bool)
  (can_expand: bool)
  (children_media_class: "string option")
  (thumbnail: "string option")
  (frigate: "FrigateEvent option")
  (children: "FrigateBrowseMediaSource list option")

record FrigateCardTimelineItem =
  item_id :: string
  item_group :: string
  item_content :: string
  item_title :: string
  item_start :: rat
  item_end :: "rat option"
  item_type :: "string option"
  item_event :: FrigateEvent
  clip :: "FrigateBrowseMediaSource option"
  snapshot :: "FrigateBrowseMediaSource option"

datatype TimelineMediaType = MediaAll | MediaClips | MediaSnapshots

subsection \<open>The vis-data \<^verbatim>\<open>DataSet\<close>\<close>

text \<open>
  Modelled from the spec: the \<^verbatim>\<open>DataSet\<close> class belongs to the vis-data library and is
  not part of this file.  The specification describes it as an ordered map keyed by event
  identifier with an upsert that merges rather than replaces.  Here it is an
  insertion-ordered store with one entry per identifier; \<^verbatim>\<open>get(id)\<close> hands out the
  stored object itself (or null), so that assignments to its fields write through to the
  store; \<^verbatim>\<open>update(items)\<close> adds each item whose identifier is new and otherwise replaces
  the stored object by \<^verbatim>\<open>{...stored, ...item}\<close>, where the properties the item carries win.
\<close>

type_synonym DataSet = "(string \<times> FrigateCardTimelineItem) list"

definition ds_get :: "DataSet \<Rightarrow> string \<Rightarrow> FrigateCardTimelineItem option" where
  "ds_get ds i = map_of ds i"

definition ds_clear :: "DataSet \<Rightarrow> DataSet" where
  "ds_clear ds = []"

text \<open>\<^verbatim>\<open>{...old, ...upd}\<close>: the optional properties of \<open>upd\<close> override only when present.\<close>

definition merge_item ::
  "FrigateCardTimelineItem \<Rightarrow> FrigateCardTimelineItem \<Rightarrow> FrigateCardTimelineItem" where
  "merge_item old upd = upd
     \<lparr> item_end := (case item_end upd of None \<Rightarrow> item_end old | Some e \<Rightarrow> Some e),
       item_type := (case item_type upd of None \<Rightarrow> item_type old | Some t \<Rightarrow> Some t),
       clip := (case clip upd of None \<Rightarrow> clip old | Some c \<Rightarrow> Some c),
       snapshot := (case snapshot upd of None \<Rightarrow> snapshot old | Some s \<Rightarrow> Some s) \<rparr>"

fun ds_upsert :: "FrigateCardTimelineItem \<Rightarrow> DataSet \<Rightarrow> DataSet" where
  "ds_upsert it [] = [(item_id it, it)]"
| "ds_upsert it ((k, old) # rest) =
     (if k = item_id it then (k, merge_item old it) # rest
      else (k, old) # ds_upsert it rest)"

text \<open>An assignment to the fields of the stored object with identifier \<open>i\<close>.\<close>

definition ds_modify ::
  "string \<Rightarrow> (FrigateCardTimelineItem \<Rightarrow> FrigateCardTimelineItem) \<Rightarrow> DataSet \<Rightarrow> DataSet" where
  "ds_modify i f ds = map (\<lambda>(k, v). if k = i then (k, f v) else (k, v)) ds"

text \<open>
  The elements of the array handed to \<^verbatim>\<open>update\<close>: a reference to an object that lives in
  the store, or a freshly built object.
\<close>

datatype itemref = Stored string | Fresh FrigateCardTimelineItem

definition ds_update_one :: "itemref \<Rightarrow> DataSet \<Rightarrow> DataSet" where
  "ds_update_one r ds =
     (case r of
        Fresh it \<Rightarrow> ds_upsert it ds
      | Stored i \<Rightarrow> (case ds_get ds i of None \<Rightarrow> ds | Some it \<Rightarrow> ds_upsert it ds))"

definition ds_update :: "itemref list \<Rightarrow> DataSet \<Rightarrow> DataSet" where
  "ds_update items ds = fold ds_update_one items ds"

text \<open>\<^verbatim>\<open>updateOnly(item)\<close> merges the item into its stored entry.\<close>

definition ds_updateOnly :: "FrigateCardTimelineItem \<Rightarrow> DataSet \<Rightarrow> DataSet" where
  "ds_updateOnly it ds = ds_modify (item_id it) (\<lambda>old. merge_item old it) ds"

text \<open>\<^verbatim>\<open>get({order: 'start'})\<close>: the items sorted by start, the sort being stable.\<close>

definition ds_get_ordered :: "DataSet \<Rightarrow> FrigateCardTimelineItem list" where
  "ds_get_ordered ds = sort_key item_start (map snd ds)"

section \<open>The timeline event manager\<close>

definition TIMELINE_EVENT_MANAGER_MAX_AGE_SECONDS :: int where
  "TIMELINE_EVENT_MANAGER_MAX_AGE_SECONDS = 10"

record TimelineEventManager =
  dataset :: DataSet
  dateStart :: "date option"
  dateEnd :: "date option"
  dateFetch :: "date option"
  maxAgeSeconds :: int

definition new_TimelineEventManager :: TimelineEventManager where
  "new_TimelineEventManager =
     \<lparr> dataset = [], dateStart = None, dateEnd = None, dateFetch = None,
       maxAgeSeconds = TIMELINE_EVENT_MANAGER_MAX_AGE_SECONDS \<rparr>"

definition isEmpty :: "TimelineEventManager \<Rightarrow> bool" where
  "isEmpty m = (length (dataset m) = 0)"

definition clear :: "TimelineEventManager \<Rightarrow> TimelineEventManager" where
  "clear m = m\<lparr>dataset := ds_clear (dataset m)\<rparr>"

subsection \<open>Adding a media source\<close>

record callbacks =
  contentCallback :: "(FrigateBrowseMediaSource \<Rightarrow> string) option"
  tooltipCallback :: "(FrigateBrowseMediaSource \<Rightarrow> string) option"

definition call_or_empty ::
  "(FrigateBrowseMediaSource \<Rightarrow> string) option \<Rightarrow> FrigateBrowseMediaSource \<Rightarrow> string" where
  "call_or_empty cb child = (case cb of None \<Rightarrow> [] | Some f \<Rightarrow> f child)"

definition new_item ::
  "callbacks \<Rightarrow> string \<Rightarrow> FrigateBrowseMediaSource \<Rightarrow> FrigateEvent \<Rightarrow> FrigateCardTimelineItem" where
  "new_item cb camera child event =
     \<lparr> item_id = event_id event,
       item_group = camera,
       item_content = call_or_empty (contentCallback cb) child,
       item_title = call_or_empty (tooltipCallback cb) child,
       item_start = start_time event * 1000,
       item_end = None,
       item_type = None,
       item_event = event,
       clip = None,
       snapshot = None \<rparr>"

text \<open>The assignments made to \<^verbatim>\<open>item\<close> once it has been looked up or built.\<close>

definition set_fields ::
  "FrigateBrowseMediaSource \<Rightarrow> FrigateEvent \<Rightarrow> FrigateCardTimelineItem \<Rightarrow> FrigateCardTimelineItem" where
  "set_fields child event item =
     (let item1 =
            (if has_end_time event
             then item\<lparr>item_end := Some (the (end_time event) * 1000), item_type := Some ''range''\<rparr>
             else item\<lparr>item_type := Some ''point''\<rparr>)
      in if media_content_type child = ''video'' then item1\<lparr>clip := Some child\<rparr>
         else if media_content_type child = ''image'' then item1\<lparr>snapshot := Some child\<rparr>
         else item1)"

definition addChild ::
  "callbacks \<Rightarrow> string \<Rightarrow> FrigateBrowseMediaSource \<Rightarrow> DataSet \<times> itemref list
     \<Rightarrow> DataSet \<times> itemref list" where
  "addChild cb camera child st =
     (case frigate child of
        None \<Rightarrow> st
      | Some event \<Rightarrow>
          if media_content_type child \<in> set [''video'', ''image''] then
            (case ds_get (fst st) (event_id event) of
               Some stored \<Rightarrow>
                 (ds_modify (event_id event) (set_fields child event) (fst st),
                  snd st @ [Stored (event_id event)])
             | None \<Rightarrow>
                 (fst st,
                  snd st @ [Fresh (set_fields child event (new_item cb camera child event))]))
          else st)"

definition addMediaSource ::
  "callbacks \<Rightarrow> string \<Rightarrow> FrigateBrowseMediaSource \<Rightarrow> DataSet \<Rightarrow> DataSet" where
  "addMediaSource cb camera target ds =
     (let st = fold (addChild cb camera) (case children target of None \<Rightarrow> [] | Some cs \<Rightarrow> cs) (ds, [])
      in ds_update (snd st) (fst st))"

subsection \<open>Coverage\<close>

definition hasCoverage :: "date \<Rightarrow> TimelineEventManager \<Rightarrow> date \<Rightarrow> date option \<Rightarrow> bool" where
  "hasCoverage now m start endo =
     (case (dateFetch m, dateStart m, dateEnd m) of
        (Some dFetch, Some dStart, Some dEnd) \<Rightarrow>
          if maxAgeSeconds m \<noteq> 0 \<and> now - dFetch > maxAgeSeconds m * 1000 then False
          else if start < dStart then False
          else (case endo of
                  None \<Rightarrow> True
                | Some e \<Rightarrow>
                    if e < dEnd then True
                    else if maxAgeSeconds m = 0 then False
                    else if now - e > maxAgeSeconds m * 1000 then False
                    else e - maxAgeSeconds m * 1000 \<le> dEnd)
      | _ \<Rightarrow> False)"

subsection \<open>The view, outbound notifications and the collaborators\<close>

record TimelineWindow =
  w_start :: date
  w_end :: date

record ViewContext =
  window :: "TimelineWindow option"

record View =
  view_target :: "FrigateBrowseMediaSource option"
  view_childIndex :: "int option"
  view_context :: "ViewContext option"

text \<open>
  What the component sends to its surroundings: \<^verbatim>\<open>dispatchErrorMessageEvent\<close> (with the
  message it was given, which is undefined when the value thrown has no \<^verbatim>\<open>message\<close>),
  \<^verbatim>\<open>dispatchFrigateCardEvent\<close> and \<^verbatim>\<open>dispatchChangeEvent\<close> of an evolved view.
\<close>

datatype effect = ErrorMessage "string option" | CardEvent string | ViewChange View

text \<open>
  The value a query rejects with: null or undefined, or a value whose \<^verbatim>\<open>message\<close> property
  can be read (and may be undefined).
\<close>

datatype rejection = Nullish | Thrown "string option"

text \<open>What makes a promise of this component reject.\<close>

datatype failure = TypeError

record 'q BrowseMediaQueryParameters =
  q_base :: 'q
  q_before :: rat
  q_after :: rat
  q_unlimited :: bool
  q_mediaType :: TimelineMediaType

record TimelineConfig =
  media :: TimelineMediaType
  clustering_threshold :: int

text \<open>
  The collaborators whose code lies outside this file are parameters of the model:
  \<^verbatim>\<open>BrowseMediaUtil\<close> (a query either resolves with a media tree or rejects with some
  value), the order in which the queries of one fetch settle (\<open>arrival\<close>, which reorders
  the promises from the order of their creation), the \<^verbatim>\<open>media\<close> getter of the view, and
  the tooltip markup.  The camera configuration \<open>'c\<close> and the base query parameters \<open>'q\<close>
  stay abstract.
\<close>

record ('c, 'q) env =
  getBrowseMediaQueryParametersBase :: "'c \<Rightarrow> 'q option"
  browseMediaQuery :: "'q BrowseMediaQueryParameters \<Rightarrow> rejection + FrigateBrowseMediaSource"
  arrival :: "(string \<times> 'q BrowseMediaQueryParameters) option list
                \<Rightarrow> (string \<times> 'q BrowseMediaQueryParameters) option list"
  isTrueMedia :: "FrigateBrowseMediaSource \<Rightarrow> bool"
  getTooltip :: "TimelineConfig option \<Rightarrow> FrigateBrowseMediaSource \<Rightarrow> string"
  view_media :: "View \<Rightarrow> FrigateBrowseMediaSource option"

subsection \<open>Fetching events\<close>

text \<open>
  An \<^verbatim>\<open>async\<close> function runs synchronously up to its first \<^verbatim>\<open>await\<close>.  The model splits
  \<^verbatim>\<open>_fetchEvents\<close> there: \<open>fetchEvents_begin\<close> widens the window, stamps the fetch date and
  issues the queries; \<open>promise_all\<close> runs the continuations once the queries have settled.
\<close>

definition widen ::
  "TimelineEventManager \<Rightarrow> date option \<Rightarrow> date option \<Rightarrow> TimelineEventManager" where
  "widen m start endo =
     (let m1 = (if (case dateStart m of
                      None \<Rightarrow> True
                    | Some d \<Rightarrow> (case start of None \<Rightarrow> False | Some s \<Rightarrow> s < d))
                then m\<lparr>dateStart := start\<rparr> else m)
      in if (case dateEnd m1 of
               None \<Rightarrow> True
             | Some d \<Rightarrow> (case endo of None \<Rightarrow> False | Some e \<Rightarrow> e > d))
         then m1\<lparr>dateEnd := endo\<rparr> else m1)"

text \<open>
  The synchronous part of \<^verbatim>\<open>fetchCameraEvents\<close>: \<open>None\<close> when it returns before the query,
  otherwise the camera and the query it has issued.
\<close>

definition fetchCameraEvents_issue ::
  "('c, 'q) env \<Rightarrow> (string \<times> 'c) list \<Rightarrow> TimelineEventManager \<Rightarrow> string \<Rightarrow> TimelineMediaType
     \<Rightarrow> (string \<times> 'q BrowseMediaQueryParameters) option" where
  "fetchCameraEvents_issue env cameras m camera mediaType =
     (case map_of cameras camera of
        None \<Rightarrow> None
      | Some cameraConfig \<Rightarrow>
          (case (dateStart m, dateEnd m) of
             (Some dStart, Some dEnd) \<Rightarrow>
               (case getBrowseMediaQueryParametersBase env cameraConfig of
                  None \<Rightarrow> None
                | Some base \<Rightarrow>
                    Some (camera,
                      \<lparr> q_base = base,
                        q_before = of_int dEnd / 1000,
                        q_after = of_int dStart / 1000,
                        q_unlimited = True,
                        q_mediaType = mediaType \<rparr>))
           | _ \<Rightarrow> None))"

definition media_kinds :: "TimelineMediaType \<Rightarrow> TimelineMediaType list" where
  "media_kinds m = (if m = MediaAll then [MediaClips, MediaSnapshots] else [m])"

definition fetchEvents_begin ::
  "('c, 'q) env \<Rightarrow> date \<Rightarrow> (string \<times> 'c) list \<Rightarrow> TimelineMediaType \<Rightarrow> date option \<Rightarrow> date option
     \<Rightarrow> TimelineEventManager
     \<Rightarrow> TimelineEventManager \<times> (string \<times> 'q BrowseMediaQueryParameters) option list" where
  "fetchEvents_begin env now cameras mda start endo m =
     (let m1 = widen m start endo
      in if dateStart m1 = None \<or> dateEnd m1 = None then (m1, [])
         else
           (let m2 = m1\<lparr>dateFetch := Some now\<rparr>
            in (m2,
                concat (map (\<lambda>mediaType.
                          map (\<lambda>camera. fetchCameraEvents_issue env cameras m2 camera mediaType)
                              (map fst cameras))
                        (media_kinds mda)))))"

text \<open>
  The body of the \<^verbatim>\<open>try\<close> block once the query has settled: a rejected query throws the
  value it rejected with (\<open>Inl\<close>), a resolved one is merged into the dataset.
\<close>

definition fetchCameraEvents_try ::
  "('c, 'q) env \<Rightarrow> callbacks \<Rightarrow> string \<times> 'q BrowseMediaQueryParameters \<Rightarrow> DataSet
     \<Rightarrow> rejection + DataSet" where
  "fetchCameraEvents_try env cb task ds =
     (case browseMediaQuery env (snd task) of
        Inl e \<Rightarrow> Inl e
      | Inr target \<Rightarrow> Inr (addMediaSource cb (fst task) target ds))"

text \<open>
  The outcome of one \<^verbatim>\<open>fetchCameraEvents\<close> promise; \<open>Inl\<close> is a rejection.  The \<^verbatim>\<open>catch\<close>
  clause reads \<^verbatim>\<open>(e as Error).message\<close> and dispatches it as an error message event;
  reading the property of null or undefined throws, and then the promise rejects.
\<close>

definition fetchCameraEvents_settle ::
  "('c, 'q) env \<Rightarrow> callbacks \<Rightarrow> (string \<times> 'q BrowseMediaQueryParameters) option
     \<Rightarrow> DataSet \<times> effect list \<Rightarrow> failure + DataSet \<times> effect list" where
  "fetchCameraEvents_settle env cb task st =
     (case task of
        None \<Rightarrow> Inr st
      | Some t \<Rightarrow>
          (case fetchCameraEvents_try env cb t (fst st) of
             Inr ds' \<Rightarrow> Inr (ds', snd st)
           | Inl Nullish \<Rightarrow> Inl TypeError
           | Inl (Thrown message) \<Rightarrow> Inr (fst st, snd st @ [ErrorMessage message])))"

text \<open>
  \<^verbatim>\<open>await Promise.all(promises)\<close>, the promises given in the order in which they settle.
  It rejects with the first rejection; the continuations of the other promises run all
  the same, so the state that comes with a rejection is the one they leave.
\<close>

fun promise_all ::
  "('c, 'q) env \<Rightarrow> callbacks \<Rightarrow> (string \<times> 'q BrowseMediaQueryParameters) option list
     \<Rightarrow> DataSet \<times> effect list
     \<Rightarrow> failure \<times> (DataSet \<times> effect list) + DataSet \<times> effect list" where
  "promise_all env cb [] st = Inr st"
| "promise_all env cb (t # ts) st =
     (case fetchCameraEvents_settle env cb t st of
        Inr st' \<Rightarrow> promise_all env cb ts st'
      | Inl f \<Rightarrow>
          Inl (f, (case promise_all env cb ts st of Inr st' \<Rightarrow> st' | Inl r \<Rightarrow> snd r)))"

text \<open>
  \<^verbatim>\<open>_fetchEvents\<close> run to completion, the queries settling in the order \<open>arrival\<close> gives;
  \<open>Inl\<close> is a rejection of its promise.
\<close>

definition fetchEvents ::
  "('c, 'q) env \<Rightarrow> callbacks \<Rightarrow> date \<Rightarrow> (string \<times> 'c) list \<Rightarrow> TimelineMediaType
     \<Rightarrow> date option \<Rightarrow> date option \<Rightarrow> TimelineEventManager
     \<Rightarrow> failure \<times> (TimelineEventManager \<times> effect list) + TimelineEventManager \<times> effect list" where
  "fetchEvents env cb now cameras mda start endo m =
     (let b = fetchEvents_begin env now cameras mda start endo m
      in case promise_all env cb (arrival env (snd b)) (dataset (fst b), []) of
           Inl r \<Rightarrow> Inl (fst r, ((fst b)\<lparr>dataset := fst (snd r)\<rparr>, snd (snd r)))
         | Inr st \<Rightarrow> Inr ((fst b)\<lparr>dataset := fst st\<rparr>, snd st))"

text \<open>
  \<^verbatim>\<open>fetchEventsIfNecessary\<close>, split in the same way: the synchronous part yields the
  manager, the promises in flight and the value the call will resolve to.
\<close>

definition fetchEventsIfNecessary_begin ::
  "('c, 'q) env \<Rightarrow> date \<Rightarrow> (string \<times> 'c) list \<Rightarrow> TimelineMediaType \<Rightarrow> date \<Rightarrow> date
     \<Rightarrow> TimelineEventManager
     \<Rightarrow> TimelineEventManager \<times> (string \<times> 'q BrowseMediaQueryParameters) option list \<times> bool" where
  "fetchEventsIfNecessary_begin env now cameras mda start endd m =
     (if hasCoverage now m start (Some endd) then (m, [], False)
      else (let b = fetchEvents_begin env now cameras mda (Some start) (Some endd) m
            in (fst b, snd b, True)))"

definition fetchEventsIfNecessary ::
  "('c, 'q) env \<Rightarrow> callbacks \<Rightarrow> date \<Rightarrow> (string \<times> 'c) list \<Rightarrow> TimelineMediaType \<Rightarrow> date \<Rightarrow> date
     \<Rightarrow> TimelineEventManager
     \<Rightarrow> failure \<times> (TimelineEventManager \<times> effect list)
         + (TimelineEventManager \<times> effect list) \<times> bool" where
  "fetchEventsIfNecessary env cb now cameras mda start endd m =
     (if hasCoverage now m start (Some endd) then Inr ((m, []), False)
      else (case fetchEvents env cb now cameras mda (Some start) (Some endd) m of
              Inl r \<Rightarrow> Inl r
            | Inr r \<Rightarrow> Inr (r, True)))"

section \<open>The timeline core component\<close>

datatype HomeAssistant = HomeAssistant

text \<open>
  Modelled from the spec: the vis-timeline widget is not part of this file.  Of its
  contract the component uses the window it shows (\<^verbatim>\<open>getWindow\<close>, \<^verbatim>\<open>setWindow\<close>) and the
  set of selected identifiers (\<^verbatim>\<open>getSelection\<close>, \<^verbatim>\<open>setSelection\<close>); a window or selection
  that has been set is the one read back.
\<close>

record Timeline =
  tl_window :: TimelineWindow
  tl_selection :: "string list"

record 'c FrigateCardTimelineCore =
  hass :: "HomeAssistant option"
  view :: "View option"
  cameras :: "(string \<times> 'c) list option"
  timelineConfig :: "TimelineConfig option"
  events :: TimelineEventManager
  refTimeline :: bool
  thumbnails :: "FrigateBrowseMediaSource option"
  timeline :: "Timeline option"

text \<open>
  Modelled from the spec: the \<^verbatim>\<open>View\<close> class is not part of this file; its \<^verbatim>\<open>evolve\<close>
  produces an updated, independent view in which the given fields are replaced.
\<close>

definition evolve_context :: "View \<Rightarrow> TimelineWindow \<Rightarrow> View" where
  "evolve_context v w = v\<lparr>view_context := Some \<lparr>window = Some w\<rparr>\<rparr>"

definition evolve_target :: "View \<Rightarrow> FrigateBrowseMediaSource \<Rightarrow> int option \<Rightarrow> View" where
  "evolve_target v target childIndex = v\<lparr>view_target := Some target, view_childIndex := childIndex\<rparr>"

text \<open>The manager is constructed with the tooltip callback only.\<close>

definition core_callbacks :: "('c, 'q) env \<Rightarrow> 'c FrigateCardTimelineCore \<Rightarrow> callbacks" where
  "core_callbacks env c =
     \<lparr> contentCallback = None, tooltipCallback = Some (getTooltip env (timelineConfig c)) \<rparr>"

text \<open>\<^verbatim>\<open>this.view?.media?.frigate?.event\<close> and \<^verbatim>\<open>this.view?.target?.frigate?.event\<close>.\<close>

definition media_event :: "('c, 'q) env \<Rightarrow> View option \<Rightarrow> FrigateEvent option" where
  "media_event env vo =
     (case vo of
        None \<Rightarrow> None
      | Some v \<Rightarrow> (case view_media env v of None \<Rightarrow> None | Some m \<Rightarrow> frigate m))"

definition target_event :: "View option \<Rightarrow> FrigateEvent option" where
  "target_event vo =
     (case vo of
        None \<Rightarrow> None
      | Some v \<Rightarrow> (case view_target v of None \<Rightarrow> None | Some t \<Rightarrow> frigate t))"

subsection \<open>Thumbnails\<close>

text \<open>
  Modelled from the spec: the two constants are imported from \<^verbatim>\<open>../types\<close>, which is not
  part of this file; the specification calls the container a playlist.  No property
  below depends on their values.
\<close>

definition MEDIA_CLASS_PLAYLIST :: string where
  "MEDIA_CLASS_PLAYLIST = ''playlist''"

definition MEDIA_TYPE_PLAYLIST :: string where
  "MEDIA_TYPE_PLAYLIST = ''playlist''"

text \<open>
  One round of the \<^verbatim>\<open>forEach\<close> in \<^verbatim>\<open>_generateThumbnails\<close>; the state is the array
  \<^verbatim>\<open>children\<close> and \<^verbatim>\<open>childIndex\<close>.
\<close>

definition thumbnail_step ::
  "('c, 'q) env \<Rightarrow> TimelineConfig option \<Rightarrow> string list \<Rightarrow> FrigateCardTimelineItem
     \<Rightarrow> FrigateBrowseMediaSource list \<times> int \<Rightarrow> FrigateBrowseMediaSource list \<times> int" where
  "thumbnail_step env cfgo selected item st =
     (case cfgo of
        None \<Rightarrow> st
      | Some cfg \<Rightarrow>
          (let pick =
                 (if (case clip item of
                        None \<Rightarrow> False
                      | Some c \<Rightarrow> media cfg \<in> set [MediaAll, MediaClips] \<and> isTrueMedia env c)
                  then clip item
                  else if (case snapshot item of
                             None \<Rightarrow> False
                           | Some s \<Rightarrow> media cfg \<in> set [MediaAll, MediaSnapshots] \<and> isTrueMedia env s)
                  then snapshot item
                  else None)
           in case pick of
                None \<Rightarrow> st
              | Some m \<Rightarrow>
                  (let children' = fst st @ [m]
                   in (children',
                       if event_id (item_event item) \<in> set selected
                       then int (length children') - 1 else snd st))))"

text \<open>The whole \<^verbatim>\<open>forEach\<close>, from the empty array and \<^verbatim>\<open>childIndex = -1\<close>.\<close>

definition projectThumbnails ::
  "('c, 'q) env \<Rightarrow> TimelineConfig option \<Rightarrow> string list \<Rightarrow> FrigateCardTimelineItem list
     \<Rightarrow> FrigateBrowseMediaSource list \<times> int" where
  "projectThumbnails env cfgo selected items =
     fold (thumbnail_step env cfgo selected) items ([], - 1)"

definition playlist :: "FrigateBrowseMediaSource list \<Rightarrow> FrigateBrowseMediaSource" where
  "playlist cs =
     BrowseMedia ''Timeline events'' MEDIA_CLASS_PLAYLIST MEDIA_TYPE_PLAYLIST [] False True
       (Some MEDIA_CLASS_PLAYLIST) None None (Some cs)"

definition generateThumbnails ::
  "('c, 'q) env \<Rightarrow> 'c FrigateCardTimelineCore \<Rightarrow> 'c FrigateCardTimelineCore \<times> effect list" where
  "generateThumbnails env c =
     (case timeline c of
        None \<Rightarrow> (c, [])
      | Some widget \<Rightarrow>
          (let st = projectThumbnails env (timelineConfig c) (tl_selection widget)
                      (ds_get_ordered (dataset (events c)))
           in if length (fst st) = 0 then (c, [])
              else
                (let target = playlist (fst st)
                 in if Some target \<noteq> thumbnails c then
                      (c\<lparr>thumbnails := Some target\<rparr>,
                       (case view c of
                          None \<Rightarrow> []
                        | Some v \<Rightarrow>
                            [ViewChange (evolve_target v target
                                           (if snd st < 0 then None else Some (snd st)))]))
                    else (c, []))))"

text \<open>\<^verbatim>\<open>Array.prototype.findIndex\<close>: the first index that satisfies \<open>P\<close>, or \<open>-1\<close>.\<close>

fun findIndex :: "('a \<Rightarrow> bool) \<Rightarrow> 'a list \<Rightarrow> int" where
  "findIndex P [] = - 1"
| "findIndex P (x # xs) =
     (if P x then 0 else (let i = findIndex P xs in if i < 0 then - 1 else i + 1))"

definition timelineSelectHandler ::
  "'c FrigateCardTimelineCore \<Rightarrow> string list \<Rightarrow> 'c FrigateCardTimelineCore \<times> effect list" where
  "timelineSelectHandler c items =
     (case thumbnails c of
        None \<Rightarrow> (c, [])
      | Some th \<Rightarrow>
          (case children th of
             None \<Rightarrow> (c, [])
           | Some cs \<Rightarrow>
               (let childIndex =
                      (case items of
                         [] \<Rightarrow> None
                       | i # _ \<Rightarrow>
                           Some (findIndex
                                   (\<lambda>child. case frigate child of
                                               None \<Rightarrow> False
                                             | Some e \<Rightarrow> event_id e = i) cs))
                in (c,
                    (case view c of
                       None \<Rightarrow> []
                     | Some v \<Rightarrow> [ViewChange (evolve_target v th childIndex)])
                    @ [if (case childIndex of None \<Rightarrow> False | Some i \<Rightarrow> i \<ge> 0)
                       then CardEvent ''thumbnails:open''
                       else CardEvent ''thumbnails:close'']))))"

subsection \<open>The desired window\<close>

text \<open>
  The date-fns library is not part of this file.  Its \<^verbatim>\<open>fromUnixTime\<close> (version 2) turns
  the timestamp into an integer, dropping the fraction, and takes it as seconds; \<^verbatim>\<open>add\<close>
  and \<^verbatim>\<open>sub\<close> of a number of hours shift the time value by that many times 3600000.
\<close>

definition fromUnixTime :: "rat \<Rightarrow> date" where
  "fromUnixTime t = toInteger t * 1000"

definition add_hours :: "date \<Rightarrow> int \<Rightarrow> date" where
  "add_hours d h = d + h * 3600000"

definition sub_hours :: "date \<Rightarrow> int \<Rightarrow> date" where
  "sub_hours d h = d - h * 3600000"

definition getStartEndFromEvent :: "FrigateEvent \<Rightarrow> date \<times> date" where
  "getStartEndFromEvent event =
     (let start = sub_hours (fromUnixTime (start_time event)) 1
      in (start,
          if has_end_time event then add_hours (fromUnixTime (the (end_time event))) 1
          else add_hours start 1))"

definition getStartEnd :: "date \<Rightarrow> View option \<Rightarrow> date \<times> date" where
  "getStartEnd now vo =
     (case target_event vo of
        Some event \<Rightarrow> getStartEndFromEvent event
      | None \<Rightarrow> (sub_hours now 1, now))"

subsection \<open>Widget options and clustering\<close>

definition isClustering :: "TimelineConfig option \<Rightarrow> bool" where
  "isClustering cfgo =
     (case cfgo of
        None \<Rightarrow> False
      | Some cfg \<Rightarrow> clustering_threshold cfg \<noteq> 0 \<and> clustering_threshold cfg > 0)"

definition clusterCriteria ::
  "('c, 'q) env \<Rightarrow> 'c FrigateCardTimelineCore \<Rightarrow> FrigateCardTimelineItem \<Rightarrow> FrigateCardTimelineItem
     \<Rightarrow> bool" where
  "clusterCriteria env c first second =
     (item_id first \<noteq> [] \<and>
      Some (item_id first) \<noteq> map_option event_id (media_event env (view c)) \<and>
      item_id second \<noteq> [] \<and>
      Some (item_id second) \<noteq> map_option event_id (media_event env (view c)) \<and>
      event_label (item_event first) = event_label (item_event second))"

record TimelineOptions =
  opt_cluster_maxItems :: "int option"
  opt_zoomMax :: int
  opt_zoomMin :: int
  opt_selectable :: bool
  opt_start :: date
  opt_end :: date

definition getOptions :: "date \<Rightarrow> 'c FrigateCardTimelineCore \<Rightarrow> TimelineOptions option" where
  "getOptions now c =
     (case timelineConfig c of
        None \<Rightarrow> None
      | Some cfg \<Rightarrow>
          (let se = getStartEnd now (view c)
           in Some \<lparr> opt_cluster_maxItems =
                       (if isClustering (timelineConfig c) then Some (clustering_threshold cfg)
                        else None),
                     opt_zoomMax = 31 * 24 * 60 * 60 * 1000,
                     opt_zoomMin = 1 * 1000,
                     opt_selectable = True,
                     opt_start = fst se,
                     opt_end = snd se \<rparr>))"

definition shouldUpdate :: "'c FrigateCardTimelineCore \<Rightarrow> bool" where
  "shouldUpdate c =
     (hass c \<noteq> None \<and> (case cameras c of None \<Rightarrow> False | Some cs \<Rightarrow> length cs > 0))"

subsection \<open>Handlers\<close>

text \<open>
  A call of \<^verbatim>\<open>fetchEventsIfNecessary\<close> that has been started and not yet awaited: the
  promises of the queries it issued and the value it will resolve to.
\<close>

record 'q fetch_in_flight =
  promises :: "(string \<times> 'q BrowseMediaQueryParameters) option list"
  fetched :: bool

text \<open>
  Awaiting it: the continuations of the queries run, in the order in which the queries
  settle, on the dataset as it is by then.  \<open>Inl\<close> is a rejection, with the component as
  the continuations leave it.
\<close>

definition await_fetch ::
  "('c, 'q) env \<Rightarrow> 'c FrigateCardTimelineCore \<Rightarrow> 'q fetch_in_flight
     \<Rightarrow> failure \<times> ('c FrigateCardTimelineCore \<times> effect list)
         + 'c FrigateCardTimelineCore \<times> effect list" where
  "await_fetch env c p =
     (case promise_all env (core_callbacks env c) (arrival env (promises p))
             (dataset (events c), []) of
        Inl r \<Rightarrow>
          Inl (fst r, (c\<lparr>events := (events c)\<lparr>dataset := fst (snd r)\<rparr>\<rparr>, snd (snd r)))
      | Inr st \<Rightarrow> Inr (c\<lparr>events := (events c)\<lparr>dataset := fst st\<rparr>\<rparr>, snd st))"

record rangeProperties =
  r_start :: date
  r_end :: date
  byUser :: bool

text \<open>
  The synchronous run of \<^verbatim>\<open>_timelineRangeHandler\<close>: the component afterwards, what it has
  dispatched, and the fetch it has left in flight (if it started one).
\<close>

definition timelineRangeHandler ::
  "('c, 'q) env \<Rightarrow> date \<Rightarrow> 'c FrigateCardTimelineCore \<Rightarrow> rangeProperties
     \<Rightarrow> 'c FrigateCardTimelineCore \<times> effect list \<times> 'q fetch_in_flight option" where
  "timelineRangeHandler env now c properties =
     (if \<not> byUser properties then (c, [], None)
      else if hass c \<noteq> None \<and> cameras c \<noteq> None \<and> timeline c \<noteq> None \<and> timelineConfig c \<noteq> None
      then
        (let b = fetchEventsIfNecessary_begin env now (the (cameras c))
                   (media (the (timelineConfig c))) (r_start properties) (r_end properties)
                   (events c)
         in (c\<lparr>events := fst b\<rparr>,
             (case view c of
                None \<Rightarrow> []
              | Some v \<Rightarrow> [ViewChange (evolve_context v (tl_window (the (timeline c))))]),
             Some \<lparr>promises = fst (snd b), fetched = snd (snd b)\<rparr>))
      else (c, [], None))"

text \<open>
  The \<^verbatim>\<open>then\<close> callback of the range handler, run when the fetch has resolved; it is not
  run when the fetch rejects.
\<close>

definition timelineRangeHandler_then ::
  "('c, 'q) env \<Rightarrow> 'c FrigateCardTimelineCore \<Rightarrow> 'q fetch_in_flight
     \<Rightarrow> failure \<times> ('c FrigateCardTimelineCore \<times> effect list)
         + 'c FrigateCardTimelineCore \<times> effect list" where
  "timelineRangeHandler_then env c p =
     (case await_fetch env c p of
        Inl r \<Rightarrow> Inl r
      | Inr r \<Rightarrow>
          if fetched p
          then (let g = generateThumbnails env (fst r) in Inr (fst g, snd r @ snd g))
          else Inr r)"

definition setWindow :: "Timeline \<Rightarrow> date \<Rightarrow> date \<Rightarrow> Timeline" where
  "setWindow widget s e = widget\<lparr>tl_window := \<lparr>w_start = s, w_end = e\<rparr>\<rparr>"

definition setSelection :: "Timeline \<Rightarrow> string list \<Rightarrow> Timeline" where
  "setSelection widget ids = widget\<lparr>tl_selection := ids\<rparr>"

text \<open>
  \<^verbatim>\<open>_updateTimelineFromView\<close> suspended at its \<^verbatim>\<open>await\<close>: the locals it keeps and the fetch
  it waits for.
\<close>

record 'q view_update_in_flight =
  vu_event :: "FrigateEvent option"
  vu_windowStart :: date
  vu_windowEnd :: date
  vu_fetch :: "'q fetch_in_flight"

definition updateTimelineFromView_begin ::
  "('c, 'q) env \<Rightarrow> date \<Rightarrow> 'c FrigateCardTimelineCore
     \<Rightarrow> 'c FrigateCardTimelineCore \<times> 'q view_update_in_flight option" where
  "updateTimelineFromView_begin env now c =
     (if hass c = None \<or> cameras c = None \<or> view c = None \<or> timeline c = None
         \<or> timelineConfig c = None
      then (c, None)
      else
        (let event = media_event env (view c);
             w = (case event of
                    Some e \<Rightarrow> getStartEndFromEvent e
                  | None \<Rightarrow> getStartEnd now (view c));
             b = fetchEventsIfNecessary_begin env now (the (cameras c))
                   (media (the (timelineConfig c))) (fst w) (snd w) (events c)
         in (c\<lparr>events := fst b\<rparr>,
             Some \<lparr> vu_event = event, vu_windowStart = fst w, vu_windowEnd = snd w,
                    vu_fetch = \<lparr>promises = fst (snd b), fetched = snd (snd b)\<rparr> \<rparr>)))"

text \<open>\<^verbatim>\<open>context?.window\<close> of the view.\<close>

definition context_window :: "View \<Rightarrow> TimelineWindow option" where
  "context_window v = (case view_context v of None \<Rightarrow> None | Some ctx \<Rightarrow> window ctx)"

text \<open>The test that the event lies outside the window the widget shows.\<close>

definition event_outside :: "FrigateEvent \<Rightarrow> TimelineWindow \<Rightarrow> bool" where
  "event_outside event timelineWindow =
     (let eventStart = new_Date (start_time event * 1000)
      in eventStart < w_start timelineWindow \<or> eventStart > w_end timelineWindow \<or>
         (has_end_time event \<and>
          (new_Date (the (end_time event) * 1000) < w_start timelineWindow \<or>
           new_Date (the (end_time event) * 1000) > w_end timelineWindow)))"

text \<open>
  The part of \<^verbatim>\<open>_updateTimelineFromView\<close> from the selection on: it sets the selection and
  places the window.  Reading a member of an undefined \<^verbatim>\<open>_timeline\<close> or \<^verbatim>\<open>view\<close> throws
  (\<open>Inl\<close>, with the component as it is by then).
\<close>

definition placeWindow ::
  "'c FrigateCardTimelineCore \<Rightarrow> FrigateEvent option \<Rightarrow> date \<Rightarrow> date
     \<Rightarrow> failure \<times> 'c FrigateCardTimelineCore + 'c FrigateCardTimelineCore" where
  "placeWindow c event windowStart windowEnd =
     (case timeline c of
        None \<Rightarrow> Inl (TypeError, c)
      | Some widget0 \<Rightarrow>
          (let widget = setSelection widget0 (case event of Some e \<Rightarrow> [event_id e] | None \<Rightarrow> [])
           in case view c of
                None \<Rightarrow> Inl (TypeError, c\<lparr>timeline := Some widget\<rparr>)
              | Some v \<Rightarrow>
                  (let timelineWindow = tl_window widget
                   in case context_window v of
                        Some cw \<Rightarrow>
                          Inr (c\<lparr>timeline :=
                                   Some (if cw \<noteq> timelineWindow
                                         then setWindow widget (w_start cw) (w_end cw)
                                         else widget)\<rparr>)
                      | None \<Rightarrow>
                          (case event of
                             Some e \<Rightarrow>
                               (let c1 = c\<lparr>timeline :=
                                             Some (if event_outside e timelineWindow
                                                   then setWindow widget windowStart windowEnd
                                                   else widget)\<rparr>
                                in Inr (if isClustering (timelineConfig c1)
                                        then (case ds_get (dataset (events c1)) (event_id e) of
                                                Some item \<Rightarrow>
                                                  c1\<lparr>events := (events c1)
                                                     \<lparr>dataset := ds_updateOnly item (dataset (events c1))\<rparr>\<rparr>
                                              | None \<Rightarrow> c1)
                                        else c1))
                           | None \<Rightarrow>
                               Inr (c\<lparr>timeline := Some (setWindow widget windowStart windowEnd)\<rparr>)))))"

text \<open>
  The continuation of \<^verbatim>\<open>_updateTimelineFromView\<close> after the \<^verbatim>\<open>await\<close>; when the awaited
  fetch rejects, nothing of it runs.
\<close>

definition updateTimelineFromView_resume ::
  "('c, 'q) env \<Rightarrow> 'c FrigateCardTimelineCore \<Rightarrow> 'q view_update_in_flight
     \<Rightarrow> failure \<times> ('c FrigateCardTimelineCore \<times> effect list)
         + 'c FrigateCardTimelineCore \<times> effect list" where
  "updateTimelineFromView_resume env c p =
     (case await_fetch env c (vu_fetch p) of
        Inl r \<Rightarrow> Inl r
      | Inr r \<Rightarrow>
          (let g = (if fetched (vu_fetch p) then generateThumbnails env (fst r) else (fst r, []))
           in case placeWindow (fst g) (vu_event p) (vu_windowStart p) (vu_windowEnd p) of
                Inl f \<Rightarrow> Inl (fst f, (snd f, snd r @ snd g))
              | Inr c' \<Rightarrow> Inr (c', snd r @ snd g)))"


datatype property = PCameras | PTimelineConfig | PView

definition new_Timeline :: "TimelineOptions \<Rightarrow> Timeline" where
  "new_Timeline options =
     \<lparr> tl_window = \<lparr>w_start = opt_start options, w_end = opt_end options\<rparr>, tl_selection = [] \<rparr>"

text \<open>
  The synchronous run of \<^verbatim>\<open>updated\<close>; the view update it starts is not awaited and is
  returned suspended.
\<close>

definition updated ::
  "('c, 'q) env \<Rightarrow> date \<Rightarrow> property set \<Rightarrow> 'c FrigateCardTimelineCore
     \<Rightarrow> 'c FrigateCardTimelineCore \<times> 'q view_update_in_flight option" where
  "updated env now changedProperties c =
     (let c1 = (if PCameras \<in> changedProperties
                then c\<lparr>events := clear (events c), timeline := None\<rparr> else c);
          options = getOptions now c1;
          c2 = (if PTimelineConfig \<in> changedProperties \<and> refTimeline c1 \<and> options \<noteq> None
                then (case timeline c1 of
                        Some widget \<Rightarrow> c1
                      | None \<Rightarrow> c1\<lparr>timeline := Some (new_Timeline (the options))\<rparr>)
                else c1)
      in if PView \<in> changedProperties then updateTimelineFromView_begin env now c2
         else (c2, None))"

section \<open>The coverage decision as the specification words it\<close>

text \<open>
  The eight steps of the specification, in its order and words: the window is unset; the
  most recent fetch is older than the staleness threshold; \<open>start\<close> is earlier than the
  stored earliest date; no end is requested; the end is earlier than the stored latest
  date; no threshold is configured; the end is older than now minus the threshold;
  otherwise the end minus the threshold is at or before the stored latest date.  The
  threshold is in seconds, the dates in milliseconds.
\<close>

definition hasCoverage_spec :: "date \<Rightarrow> TimelineEventManager \<Rightarrow> date \<Rightarrow> date option \<Rightarrow> bool" where
  "hasCoverage_spec now m start endo =
     (if dateFetch m = None \<or> dateStart m = None \<or> dateEnd m = None then False
      else if maxAgeSeconds m \<noteq> 0 \<and> the (dateFetch m) < now - maxAgeSeconds m * 1000 then False
      else if start < the (dateStart m) then False
      else if endo = None then True
      else if the endo < the (dateEnd m) then True
      else if maxAgeSeconds m = 0 then False
      else if the endo < now - maxAgeSeconds m * 1000 then False
      else the endo - maxAgeSeconds m * 1000 \<le> the (dateEnd m))"

section \<open>Notions used to state the properties\<close>

subsection \<open>Datasets\<close>

text \<open>A dataset is well formed when no identifier occurs twice and every item is stored
  under its own identifier.\<close>

definition keys_ok :: "DataSet \<Rightarrow> bool" where
  "keys_ok ds = (\<forall>p \<in> set ds. item_id (snd p) = fst p)"

definition wf_dataset :: "DataSet \<Rightarrow> bool" where
  "wf_dataset ds = (distinct (map fst ds) \<and> keys_ok ds)"

text \<open>A field that was resolved (clip, snapshot, end) is still resolved afterwards.\<close>

definition keeps_resolved :: "FrigateCardTimelineItem \<Rightarrow> FrigateCardTimelineItem \<Rightarrow> bool" where
  "keeps_resolved old new =
     ((clip old \<noteq> None \<longrightarrow> clip new \<noteq> None) \<and>
      (snapshot old \<noteq> None \<longrightarrow> snapshot new \<noteq> None) \<and>
      (item_end old \<noteq> None \<longrightarrow> item_end new \<noteq> None))"

definition ds_keeps :: "DataSet \<Rightarrow> DataSet \<Rightarrow> bool" where
  "ds_keeps ds ds' =
     (\<forall>i old. map_of ds i = Some old \<longrightarrow> (\<exists>new. map_of ds' i = Some new \<and> keeps_resolved old new))"

text \<open>The identifiers of \<open>ds'\<close> are those of \<open>ds\<close>, in place, followed by new ones.\<close>

definition extends :: "DataSet \<Rightarrow> DataSet \<Rightarrow> bool" where
  "extends ds ds' = (\<exists>added. map fst ds' = map fst ds @ added)"

definition grows :: "DataSet \<Rightarrow> DataSet \<Rightarrow> bool" where
  "grows ds ds' =
     (extends ds ds' \<and> ds_keeps ds ds' \<and> (distinct (map fst ds) \<longrightarrow> distinct (map fst ds')))"

text \<open>A sequence of merges: each element is a camera and the media source merged for it.\<close>

definition merges ::
  "callbacks \<Rightarrow> (string \<times> FrigateBrowseMediaSource) list \<Rightarrow> DataSet \<Rightarrow> DataSet" where
  "merges cb ms ds = fold (\<lambda>m. addMediaSource cb (fst m) (snd m)) ms ds"

fun ref_id :: "itemref \<Rightarrow> string" where
  "ref_id (Stored i) = i"
| "ref_id (Fresh it) = item_id it"

definition stored_in :: "itemref list \<Rightarrow> DataSet \<Rightarrow> bool" where
  "stored_in items ds = (\<forall>r \<in> set items. \<forall>i. r = Stored i \<longrightarrow> i \<in> set (map fst ds))"

definition child_list :: "FrigateBrowseMediaSource \<Rightarrow> FrigateBrowseMediaSource list" where
  "child_list target = (case children target of None \<Rightarrow> [] | Some cs \<Rightarrow> cs)"

text \<open>The event identifiers of the children that \<open>addMediaSource\<close> turns into items.\<close>

definition kept_ids :: "FrigateBrowseMediaSource list \<Rightarrow> string set" where
  "kept_ids cs =
     {event_id e | e child. child \<in> set cs \<and> frigate child = Some e \<and>
        media_content_type child \<in> set [''video'', ''image'']}"

text \<open>
  What a merge makes of a stored item, told field by field.  A child of the source is
  kept for the event \<open>i\<close> when it carries that event and is a video or an image.  The
  clip of the item becomes the last video kept for \<open>i\<close>, the snapshot the last image
  kept for \<open>i\<close>, the end the end of the last child kept for \<open>i\<close> whose event has one,
  the type that of the last child kept for \<open>i\<close>; where there is no such child the field
  stays as it was, and all other fields stay as they were.
\<close>

definition kept_for :: "string \<Rightarrow> FrigateBrowseMediaSource \<Rightarrow> bool" where
  "kept_for i child =
     (case frigate child of
        None \<Rightarrow> False
      | Some e \<Rightarrow> event_id e = i \<and> media_content_type child \<in> set [''video'', ''image''])"

definition video_for :: "string \<Rightarrow> FrigateBrowseMediaSource \<Rightarrow> bool" where
  "video_for i child = (kept_for i child \<and> media_content_type child = ''video'')"

definition image_for :: "string \<Rightarrow> FrigateBrowseMediaSource \<Rightarrow> bool" where
  "image_for i child = (kept_for i child \<and> media_content_type child = ''image'')"

definition child_has_end :: "FrigateBrowseMediaSource \<Rightarrow> bool" where
  "child_has_end child = (case frigate child of None \<Rightarrow> False | Some e \<Rightarrow> has_end_time e)"

definition child_end :: "FrigateBrowseMediaSource \<Rightarrow> rat" where
  "child_end child = (case frigate child of None \<Rightarrow> 0 | Some e \<Rightarrow> the (end_time e) * 1000)"

definition latest :: "('a \<Rightarrow> bool) \<Rightarrow> ('a \<Rightarrow> 'b) \<Rightarrow> 'a list \<Rightarrow> 'b option \<Rightarrow> 'b option" where
  "latest P f cs d = fold (\<lambda>c acc. if P c then Some (f c) else acc) cs d"

definition merged_item ::
  "string \<Rightarrow> FrigateBrowseMediaSource list \<Rightarrow> FrigateCardTimelineItem \<Rightarrow> FrigateCardTimelineItem" where
  "merged_item i cs old = old
     \<lparr> item_end := latest (\<lambda>c. kept_for i c \<and> child_has_end c) child_end cs (item_end old),
       item_type := latest (kept_for i) (\<lambda>c. if child_has_end c then ''range'' else ''point'') cs
                      (item_type old),
       clip := latest (video_for i) (\<lambda>c. c) cs (clip old),
       snapshot := latest (image_for i) (\<lambda>c. c) cs (snapshot old) \<rparr>"

text \<open>The fresh objects handed to \<^verbatim>\<open>update\<close> have identifiers the store does not have.\<close>

definition fresh_new :: "itemref list \<Rightarrow> DataSet \<Rightarrow> bool" where
  "fresh_new items ds = (\<forall>r \<in> set items. \<forall>it. r = Fresh it \<longrightarrow> item_id it \<notin> set (map fst ds))"

subsection \<open>Example data of the scenarios\<close>

definition no_callbacks :: callbacks where
  "no_callbacks = \<lparr> contentCallback = None, tooltipCallback = None \<rparr>"

definition example_event :: FrigateEvent where
  "example_event =
     \<lparr> event_id = ''e1'', event_label = ''person'', start_time = 36600, end_time = Some 36900 \<rparr>"

definition example_snapshot :: FrigateBrowseMediaSource where
  "example_snapshot =
     BrowseMedia ''snapshot e1'' ''image'' ''image'' ''s1'' False False None None
       (Some example_event) None"

definition example_clip :: FrigateBrowseMediaSource where
  "example_clip =
     BrowseMedia ''clip e1'' ''video'' ''video'' ''c1'' True False None None
       (Some example_event) None"

definition folder :: "FrigateBrowseMediaSource list \<Rightarrow> FrigateBrowseMediaSource" where
  "folder cs = BrowseMedia ''events'' ''directory'' ''playlist'' [] False True None None None (Some cs)"

definition example_item :: FrigateCardTimelineItem where
  "example_item =
     \<lparr> item_id = ''e1'', item_group = ''front'', item_content = [], item_title = [],
       item_start = 36600000, item_end = Some 36900000, item_type = Some ''range'',
       item_event = example_event, clip = None, snapshot = Some example_snapshot \<rparr>"

definition example_env :: "(string, string) env" where
  "example_env =
     \<lparr> getBrowseMediaQueryParametersBase = (\<lambda>cfg. Some cfg),
       browseMediaQuery =
           (\<lambda>q. if q_base q = ''back'' then Inl (Thrown (Some ''boom''))
              else if q_mediaType q = MediaClips then Inr (folder [example_clip])
              else Inr (folder [example_snapshot])),
       arrival = rev,
       isTrueMedia = (\<lambda>m. \<not> can_expand m),
       getTooltip = (\<lambda>cfg m. title m),
       view_media = (\<lambda>v. view_target v) \<rparr>"

definition example_view :: View where
  "example_view =
     \<lparr> view_target = Some example_clip, view_childIndex = None, view_context = None \<rparr>"

definition example_core :: "string FrigateCardTimelineCore" where
  "example_core =
     \<lparr> hass = Some HomeAssistant,
       view = Some example_view,
       cameras = Some [(''back-door'', ''back''), (''front-door'', ''front'')],
       timelineConfig = Some \<lparr> media = MediaClips, clustering_threshold = 3 \<rparr>,
       events = new_TimelineEventManager
         \<lparr> dataset := [(''e1'', example_item)],
           dateStart := Some 36000000, dateEnd := Some 39600000, dateFetch := Some 36005000 \<rparr>,
       refTimeline = True,
       thumbnails = Some (playlist [example_clip]),
       timeline = Some \<lparr> tl_window = \<lparr>w_start = 32400000, w_end = 36000000\<rparr>,
                         tl_selection = [] \<rparr> \<rparr>"

subsection \<open>Outcome of a set of queries\<close>

text \<open>The media sources of the queries that resolved, each with its camera, and the
  error events of the queries that rejected with a value, both in the order of the
  promises given.  A query rejects with a value unless it rejects with null or
  undefined.\<close>

definition resolved_sources ::
  "('c, 'q) env \<Rightarrow> (string \<times> 'q BrowseMediaQueryParameters) option list
     \<Rightarrow> (string \<times> FrigateBrowseMediaSource) list" where
  "resolved_sources env tasks =
     concat (map (\<lambda>t. case t of
                         None \<Rightarrow> []
                       | Some task \<Rightarrow>
                           (case browseMediaQuery env (snd task) of
                              Inl message \<Rightarrow> []
                            | Inr target \<Rightarrow> [(fst task, target)])) tasks)"

definition rejects_nullish ::
  "('c, 'q) env \<Rightarrow> (string \<times> 'q BrowseMediaQueryParameters) option \<Rightarrow> bool" where
  "rejects_nullish env t =
     (case t of None \<Rightarrow> False | Some task \<Rightarrow> browseMediaQuery env (snd task) = Inl Nullish)"

definition rejected_messages ::
  "('c, 'q) env \<Rightarrow> (string \<times> 'q BrowseMediaQueryParameters) option list \<Rightarrow> effect list" where
  "rejected_messages env tasks =
     concat (map (\<lambda>t. case t of
                         None \<Rightarrow> []
                       | Some task \<Rightarrow>
                           (case browseMediaQuery env (snd task) of
                              Inl Nullish \<Rightarrow> []
                            | Inl (Thrown message) \<Rightarrow> [ErrorMessage message]
                            | Inr target \<Rightarrow> [])) tasks)"

text \<open>
  The state the continuations of a list of settled queries leave: every resolved source
  merged, one error event for every query that rejected with a value.
\<close>

definition settled ::
  "('c, 'q) env \<Rightarrow> callbacks \<Rightarrow> (string \<times> 'q BrowseMediaQueryParameters) option list
     \<Rightarrow> DataSet \<times> effect list \<Rightarrow> DataSet \<times> effect list" where
  "settled env cb ts st =
     (merges cb (resolved_sources env ts) (fst st), snd st @ rejected_messages env ts)"

definition some_nullish ::
  "('c, 'q) env \<Rightarrow> (string \<times> 'q BrowseMediaQueryParameters) option list \<Rightarrow> bool" where
  "some_nullish env ts = list_ex (rejects_nullish env) ts"

text \<open>Every query rejects with a value or resolves.\<close>

definition rejects_with_value :: "('c, 'q) env \<Rightarrow> bool" where
  "rejects_with_value env = (\<forall>q. browseMediaQuery env q \<noteq> Inl Nullish)"

text \<open>The example collaborators, except that every query rejects with undefined.\<close>

definition nullish_env :: "(string, string) env" where
  "nullish_env = example_env\<lparr>browseMediaQuery := (\<lambda>q. Inl Nullish)\<rparr>"

subsection \<open>What an operation leaves of the manager\<close>

text \<open>No field of the coverage window that was set is unset, and the threshold is the same.\<close>

definition window_kept :: "TimelineEventManager \<Rightarrow> TimelineEventManager \<Rightarrow> bool" where
  "window_kept m m' =
     ((dateStart m \<noteq> None \<longrightarrow> dateStart m' \<noteq> None) \<and>
      (dateEnd m \<noteq> None \<longrightarrow> dateEnd m' \<noteq> None) \<and>
      (dateFetch m \<noteq> None \<longrightarrow> dateFetch m' \<noteq> None) \<and>
      maxAgeSeconds m' = maxAgeSeconds m)"

definition never_less :: "TimelineEventManager \<Rightarrow> TimelineEventManager \<Rightarrow> bool" where
  "never_less m m' = (extends (dataset m) (dataset m') \<and> window_kept m m')"


subsection \<open>The window the placement rules ask for\<close>

text \<open>
  The precedence as the specification states it: a persisted context window wins; without
  one, a focused event moves the window to \<open>desired\<close> only when it lies outside the window
  shown; with neither, \<open>desired\<close> is shown.
\<close>

definition placed_window ::
  "View \<Rightarrow> FrigateEvent option \<Rightarrow> TimelineWindow \<Rightarrow> date \<times> date \<Rightarrow> TimelineWindow" where
  "placed_window v event current desired =
     (case context_window v of
        Some cw \<Rightarrow> cw
      | None \<Rightarrow>
          (case event of
             Some e \<Rightarrow>
               if event_outside e current then \<lparr>w_start = fst desired, w_end = snd desired\<rparr>
               else current
           | None \<Rightarrow> \<lparr>w_start = fst desired, w_end = snd desired\<rparr>))"

section \<open>Coverage\<close>

lemma hasCoverage_refines: "hasCoverage now m start endo = hasCoverage_spec now m start endo"
proof (cases "dateFetch m")
  case None
  then show ?thesis by (simp add: hasCoverage_def hasCoverage_spec_def)
next
  case f: (Some dFetch)
  show ?thesis
  proof (cases "dateStart m")
    case None
    then show ?thesis using f by (simp add: hasCoverage_def hasCoverage_spec_def)
  next
    case s: (Some dStart)
    show ?thesis
    proof (cases "dateEnd m")
      case None
      then show ?thesis using f s by (simp add: hasCoverage_def hasCoverage_spec_def)
    next
      case e: (Some dEnd)
      show ?thesis
      proof (cases endo)
        case None
        then show ?thesis using f s e
          by (simp add: hasCoverage_def hasCoverage_spec_def)
      next
        case (Some r)
        then show ?thesis using f s e
          by (simp add: hasCoverage_def hasCoverage_spec_def)
      qed
    qed
  qed
qed

lemma widen_fresh:
  "widen new_TimelineEventManager (Some s) (Some e) =
     new_TimelineEventManager\<lparr>dateStart := Some s, dateEnd := Some e\<rparr>"
  by (simp add: widen_def new_TimelineEventManager_def)

lemma begin_fresh_window:
  "fst (fetchEvents_begin env now cams mda (Some s) (Some e) new_TimelineEventManager) =
     new_TimelineEventManager\<lparr>dateStart := Some s, dateEnd := Some e, dateFetch := Some now\<rparr>"
  by (simp add: fetchEvents_begin_def widen_fresh Let_def)

text \<open>
  C1.  \<open>hasCoverage\<close> is the eight-step decision procedure of the specification: for every
  manager state, clock reading, start and optional end it returns what the eight steps
  return.  In the scenario, a manager that has never fetched starts a fetch of
  [10:00, 11:00] at 10:00:05 (threshold 10 s); a check at 10:00:12 for [10:15, 10:45]
  returns true, a check at 10:00:20 for the same range returns false.  Times of day are
  in milliseconds since midnight.
\<close>

theorem hasCoverage_decision_procedure:
  "hasCoverage now m start endo = hasCoverage_spec now m start endo
   \<and> hasCoverage 36012000
        (fst (fetchEvents_begin env 36005000 cams mda (Some 36000000) (Some 39600000)
                new_TimelineEventManager))
        36900000 (Some 38700000)
   \<and> \<not> hasCoverage 36020000
        (fst (fetchEvents_begin env 36005000 cams mda (Some 36000000) (Some 39600000)
                new_TimelineEventManager))
        36900000 (Some 38700000)"
  by (simp add: hasCoverage_refines begin_fresh_window)
     (simp add: hasCoverage_spec_def new_TimelineEventManager_def
        TIMELINE_EVENT_MANAGER_MAX_AGE_SECONDS_def)

section \<open>Merging media sources into the dataset\<close>

lemma keeps_resolved_refl: "keeps_resolved x x"
  by (simp add: keeps_resolved_def)

lemma keeps_resolved_trans: "keeps_resolved x y \<Longrightarrow> keeps_resolved y z \<Longrightarrow> keeps_resolved x z"
  by (simp add: keeps_resolved_def)

lemma ds_keeps_refl: "ds_keeps ds ds"
  by (simp add: ds_keeps_def keeps_resolved_refl)

lemma ds_keeps_trans: "ds_keeps a b \<Longrightarrow> ds_keeps b c \<Longrightarrow> ds_keeps a c"
  unfolding ds_keeps_def by (meson keeps_resolved_trans)

lemma keeps_set_fields: "keeps_resolved x (set_fields child event x)"
  by (simp add: keeps_resolved_def set_fields_def Let_def)

lemma keeps_merge_item: "keeps_resolved old (merge_item old upd)"
  by (auto simp: keeps_resolved_def merge_item_def split: option.splits)

lemma map_of_ds_modify:
  "map_of (ds_modify i f ds) k = (if k = i then map_option f (map_of ds i) else map_of ds k)"
  by (induction ds) (auto simp: ds_modify_def)

lemma map_of_ds_upsert:
  "map_of (ds_upsert it ds) k =
     (if k = item_id it
      then Some (case map_of ds k of None \<Rightarrow> it | Some old \<Rightarrow> merge_item old it)
      else map_of ds k)"
  by (induction ds) auto

lemma keys_ds_modify: "map fst (ds_modify i f ds) = map fst ds"
  by (induction ds) (auto simp: ds_modify_def)

lemma keys_ds_upsert:
  "map fst (ds_upsert it ds) =
     (if item_id it \<in> set (map fst ds) then map fst ds else map fst ds @ [item_id it])"
proof (induction ds)
  case Nil
  show ?case by simp
next
  case (Cons p ds)
  obtain k old where p: "p = (k, old)" by (cases p)
  show ?case using Cons.IH by (simp add: p)
qed

lemma ds_keeps_modify: "ds_keeps ds (ds_modify i (set_fields child event) ds)"
  by (auto simp: ds_keeps_def map_of_ds_modify keeps_set_fields keeps_resolved_refl)

lemma ds_keeps_upsert: "ds_keeps ds (ds_upsert it ds)"
  by (auto simp: ds_keeps_def map_of_ds_upsert keeps_merge_item keeps_resolved_refl)

lemma distinct_ds_upsert: "distinct (map fst ds) \<Longrightarrow> distinct (map fst (ds_upsert it ds))"
  by (simp add: keys_ds_upsert)

lemma extends_refl: "extends ds ds"
  by (simp add: extends_def)

lemma extends_trans: "extends a b \<Longrightarrow> extends b c \<Longrightarrow> extends a c"
  by (auto simp: extends_def)

lemma extends_upsert: "extends ds (ds_upsert it ds)"
  by (simp add: extends_def keys_ds_upsert)

lemma extends_modify: "extends ds (ds_modify i f ds)"
  by (simp add: extends_def keys_ds_modify)

lemma grows_refl: "grows ds ds"
  by (simp add: grows_def extends_refl ds_keeps_refl)

lemma grows_trans: "grows a b \<Longrightarrow> grows b c \<Longrightarrow> grows a c"
  unfolding grows_def using extends_trans ds_keeps_trans by blast

lemma grows_upsert: "grows ds (ds_upsert it ds)"
  by (simp add: grows_def extends_upsert ds_keeps_upsert distinct_ds_upsert)

lemma grows_modify: "grows ds (ds_modify i (set_fields child event) ds)"
  by (simp add: grows_def extends_modify ds_keeps_modify keys_ds_modify)

lemma grows_update_one: "grows ds (ds_update_one r ds)"
  by (auto simp: ds_update_one_def grows_refl grows_upsert split: itemref.splits option.splits)

lemma grows_update: "grows ds (ds_update items ds)"
  unfolding ds_update_def
proof (induction items arbitrary: ds)
  case Nil
  show ?case by (simp add: grows_refl)
next
  case (Cons r items)
  have "grows ds (ds_update_one r ds)" by (rule grows_update_one)
  moreover have "grows (ds_update_one r ds) (fold ds_update_one items (ds_update_one r ds))"
    by (rule Cons.IH)
  ultimately show ?case using grows_trans by auto
qed

lemma grows_addChild: "grows (fst st) (fst (addChild cb camera child st))"
  by (auto simp: addChild_def grows_refl grows_modify split: option.splits)

lemma grows_fold_addChild: "grows (fst st) (fst (fold (addChild cb camera) cs st))"
proof (induction cs arbitrary: st)
  case Nil
  show ?case by (simp add: grows_refl)
next
  case (Cons child cs)
  have "grows (fst st) (fst (addChild cb camera child st))" by (rule grows_addChild)
  moreover have "grows (fst (addChild cb camera child st))
                   (fst (fold (addChild cb camera) cs (addChild cb camera child st)))"
    by (rule Cons.IH)
  ultimately show ?case using grows_trans by auto
qed

lemma grows_addMediaSource: "grows ds (addMediaSource cb camera target ds)"
proof -
  let ?st = "fold (addChild cb camera) (case children target of None \<Rightarrow> [] | Some cs \<Rightarrow> cs) (ds, [])"
  have "grows ds (fst ?st)"
    using grows_fold_addChild [of "(ds, [])" cb camera] by simp
  moreover have "grows (fst ?st) (ds_update (snd ?st) (fst ?st))" by (rule grows_update)
  ultimately show ?thesis
    using grows_trans by (auto simp: addMediaSource_def Let_def)
qed

lemma grows_merges: "grows ds (merges cb ms ds)"
  unfolding merges_def
proof (induction ms arbitrary: ds)
  case Nil
  show ?case by (simp add: grows_refl)
next
  case (Cons m ms)
  show ?case using grows_trans [OF grows_addMediaSource Cons.IH] by simp
qed

lemma item_id_merge_item: "item_id (merge_item old upd) = item_id upd"
  by (simp add: merge_item_def)

lemma item_id_set_fields: "item_id (set_fields child event x) = item_id x"
  by (simp add: set_fields_def Let_def)

lemma keys_ok_Cons: "keys_ok (p # ds) = (item_id (snd p) = fst p \<and> keys_ok ds)"
  by (simp add: keys_ok_def)

lemma keys_ok_upsert: "keys_ok ds \<Longrightarrow> keys_ok (ds_upsert it ds)"
proof (induction ds)
  case Nil
  show ?case by (simp add: keys_ok_def)
next
  case (Cons p ds)
  obtain k old where p: "p = (k, old)" by (cases p)
  show ?case using Cons by (simp add: p keys_ok_Cons item_id_merge_item)
qed

lemma keys_ok_modify: "keys_ok ds \<Longrightarrow> keys_ok (ds_modify i (set_fields child event) ds)"
  by (auto simp: keys_ok_def ds_modify_def item_id_set_fields)

lemma keys_ok_lookup: "keys_ok ds \<Longrightarrow> map_of ds i = Some it \<Longrightarrow> item_id it = i"
  using map_of_SomeD [of ds i it] by (auto simp: keys_ok_def)

lemma update_one_keys:
  assumes "keys_ok ds" and "\<forall>i. r = Stored i \<longrightarrow> i \<in> set (map fst ds)"
  shows "keys_ok (ds_update_one r ds) \<and>
         set (map fst (ds_update_one r ds)) = insert (ref_id r) (set (map fst ds))"
proof (cases r)
  case (Fresh it)
  then show ?thesis using assms(1)
    by (auto simp: ds_update_one_def keys_ok_upsert keys_ds_upsert)
next
  case (Stored i)
  with assms(2) have mem: "i \<in> set (map fst ds)" by simp
  then have "map_of ds i \<noteq> None" by (simp add: map_of_eq_None_iff)
  then obtain it where it: "map_of ds i = Some it" by blast
  then have "item_id it = i" using assms(1) keys_ok_lookup by blast
  then show ?thesis using Stored it mem assms(1)
    by (auto simp: ds_update_one_def ds_get_def keys_ok_upsert keys_ds_upsert)
qed

lemma update_keys:
  "keys_ok ds \<Longrightarrow> stored_in items ds \<Longrightarrow>
     keys_ok (ds_update items ds) \<and>
     set (map fst (ds_update items ds)) = set (map fst ds) \<union> ref_id ` set items"
  unfolding ds_update_def
proof (induction items arbitrary: ds)
  case Nil
  then show ?case by simp
next
  case (Cons r items)
  have r: "\<forall>i. r = Stored i \<longrightarrow> i \<in> set (map fst ds)"
    using Cons.prems(2) by (simp add: stored_in_def)
  note one = update_one_keys [OF Cons.prems(1) r]
  have "stored_in items (ds_update_one r ds)"
    using Cons.prems(2) one by (auto simp: stored_in_def)
  from Cons.IH [OF conjunct1 [OF one] this] one show ?case by auto
qed

lemma addChild_skip:
  "frigate child = None \<or> \<not> media_content_type child \<in> set [''video'', ''image''] \<Longrightarrow>
     addChild cb camera child st = st"
  by (cases "frigate child") (simp_all add: addChild_def del: list.set insert_iff)

lemma addChild_stored:
  "frigate child = Some event \<Longrightarrow> media_content_type child \<in> set [''video'', ''image''] \<Longrightarrow>
   ds_get (fst st) (event_id event) = Some stored \<Longrightarrow>
     addChild cb camera child st =
       (ds_modify (event_id event) (set_fields child event) (fst st),
        snd st @ [Stored (event_id event)])"
  by (simp add: addChild_def del: list.set insert_iff)

lemma addChild_fresh:
  "frigate child = Some event \<Longrightarrow> media_content_type child \<in> set [''video'', ''image''] \<Longrightarrow>
   ds_get (fst st) (event_id event) = None \<Longrightarrow>
     addChild cb camera child st =
       (fst st, snd st @ [Fresh (set_fields child event (new_item cb camera child event))])"
  by (simp add: addChild_def del: list.set insert_iff)

lemma kept_ids_single:
  "kept_ids [child] =
     (case frigate child of
        None \<Rightarrow> {}
      | Some e \<Rightarrow> if media_content_type child \<in> set [''video'', ''image''] then {event_id e} else {})"
proof -
  have "\<And>c. c \<in> set [child] \<longleftrightarrow> c = child" by simp
  then show ?thesis unfolding kept_ids_def
    by (cases "frigate child") (auto simp del: list.set insert_iff)
qed

lemma kept_ids_skip:
  "frigate child = None \<or> \<not> media_content_type child \<in> set [''video'', ''image''] \<Longrightarrow>
     kept_ids [child] = {}"
  unfolding kept_ids_single by (cases "frigate child") (simp_all del: list.set insert_iff)

lemma kept_ids_kept:
  "frigate child = Some event \<Longrightarrow> media_content_type child \<in> set [''video'', ''image''] \<Longrightarrow>
     kept_ids [child] = {event_id event}"
  unfolding kept_ids_single by (simp del: list.set insert_iff)

lemma stored_in_snoc_Fresh: "stored_in items ds \<Longrightarrow> stored_in (items @ [Fresh it]) ds"
  by (simp add: stored_in_def)

lemma stored_in_snoc_Stored:
  "stored_in items ds \<Longrightarrow> i \<in> set (map fst ds) \<Longrightarrow> map fst ds' = map fst ds \<Longrightarrow>
     stored_in (items @ [Stored i]) ds'"
proof -
  assume a: "stored_in items ds" and i: "i \<in> set (map fst ds)" and m: "map fst ds' = map fst ds"
  have "set (map fst ds') = set (map fst ds)" by (rule arg_cong [OF m])
  then show ?thesis using a i unfolding stored_in_def by auto
qed

lemma addChild_keys:
  assumes "keys_ok (fst st)" and "stored_in (snd st) (fst st)"
  shows "keys_ok (fst (addChild cb camera child st)) \<and>
         stored_in (snd (addChild cb camera child st)) (fst (addChild cb camera child st)) \<and>
         map fst (fst (addChild cb camera child st)) = map fst (fst st) \<and>
         ref_id ` set (snd (addChild cb camera child st)) = ref_id ` set (snd st) \<union> kept_ids [child]"
proof (cases "frigate child = None \<or> \<not> media_content_type child \<in> set [''video'', ''image'']")
  case True
  show ?thesis unfolding addChild_skip [OF True] kept_ids_skip [OF True] using assms by simp
next
  case False
  have ty: "media_content_type child \<in> set [''video'', ''image'']"
    using False by (simp del: list.set insert_iff)
  have "frigate child \<noteq> None" using False by (simp del: list.set insert_iff)
  then obtain event where ev: "frigate child = Some event" by (cases "frigate child") simp_all
  note kept = kept_ids_kept [OF ev ty]
  show ?thesis
  proof (cases "ds_get (fst st) (event_id event)")
    case None
    show ?thesis unfolding addChild_fresh [OF ev ty None] kept
      using assms by (simp add: stored_in_snoc_Fresh item_id_set_fields new_item_def)
  next
    case (Some stored)
    have mem: "event_id event \<in> set (map fst (fst st))"
      using map_of_SomeD [of "fst st" "event_id event" stored] Some
      by (auto simp: ds_get_def intro: rev_image_eqI)
    have "stored_in (snd st @ [Stored (event_id event)])
            (ds_modify (event_id event) (set_fields child event) (fst st))"
      by (rule stored_in_snoc_Stored [OF assms(2) mem keys_ds_modify])
    then show ?thesis unfolding addChild_stored [OF ev ty Some] kept
      using assms by (simp add: keys_ok_modify keys_ds_modify)
  qed
qed

lemma kept_ids_Cons: "kept_ids (child # cs) = kept_ids [child] \<union> kept_ids cs"
proof -
  have "\<And>c. c \<in> set (child # cs) \<longleftrightarrow> c \<in> set [child] \<or> c \<in> set cs" by simp
  then show ?thesis unfolding kept_ids_def by (auto simp del: list.set insert_iff)
qed

lemma fold_addChild_keys:
  "keys_ok (fst st) \<Longrightarrow> stored_in (snd st) (fst st) \<Longrightarrow>
     keys_ok (fst (fold (addChild cb camera) cs st)) \<and>
     stored_in (snd (fold (addChild cb camera) cs st)) (fst (fold (addChild cb camera) cs st)) \<and>
     map fst (fst (fold (addChild cb camera) cs st)) = map fst (fst st) \<and>
     ref_id ` set (snd (fold (addChild cb camera) cs st)) = ref_id ` set (snd st) \<union> kept_ids cs"
proof (induction cs arbitrary: st)
  case Nil
  then show ?case by (simp add: kept_ids_def)
next
  case (Cons child cs)
  note one = addChild_keys [OF Cons.prems, of cb camera child]
  from one have a: "keys_ok (fst (addChild cb camera child st))"
    and b: "stored_in (snd (addChild cb camera child st)) (fst (addChild cb camera child st))"
    by simp_all
  from Cons.IH [OF a b] one show ?case
    by (simp add: kept_ids_Cons [of child cs] Un_assoc)
qed

lemma addMediaSource_keys:
  assumes "keys_ok ds"
  shows "keys_ok (addMediaSource cb camera target ds) \<and>
         set (map fst (addMediaSource cb camera target ds)) =
           set (map fst ds) \<union> kept_ids (child_list target)"
proof -
  let ?st = "fold (addChild cb camera) (child_list target) (ds, [])"
  have f: "keys_ok (fst ?st) \<and> stored_in (snd ?st) (fst ?st) \<and> map fst (fst ?st) = map fst ds \<and>
           ref_id ` set (snd ?st) = kept_ids (child_list target)"
  proof -
    have "stored_in (snd (ds, [])) (fst (ds, []))" by (simp add: stored_in_def)
    moreover have "keys_ok (fst (ds, []))" using assms by simp
    ultimately show ?thesis
      using fold_addChild_keys [of "(ds, [])" cb camera "child_list target"] by simp
  qed
  from f have k: "keys_ok (fst ?st)" and s: "stored_in (snd ?st) (fst ?st)"
    and m: "map fst (fst ?st) = map fst ds"
    and r: "ref_id ` set (snd ?st) = kept_ids (child_list target)" by simp_all
  have sm: "set (map fst (fst ?st)) = set (map fst ds)" by (rule arg_cong [OF m])
  have a: "addMediaSource cb camera target ds = ds_update (snd ?st) (fst ?st)"
    by (simp add: addMediaSource_def Let_def child_list_def)
  from update_keys [OF k s] show ?thesis unfolding a sm r by simp
qed

lemma addMediaSource_twice_keys:
  assumes "keys_ok ds" and "distinct (map fst ds)"
  shows "map fst (addMediaSource cb camera target (addMediaSource cb camera target ds)) =
         map fst (addMediaSource cb camera target ds)"
proof -
  let ?d1 = "addMediaSource cb camera target ds"
  let ?d2 = "addMediaSource cb camera target ?d1"
  have k1: "keys_ok ?d1" and s1: "set (map fst ?d1) = set (map fst ds) \<union> kept_ids (child_list target)"
    using addMediaSource_keys [OF assms(1)] by simp_all
  have s2: "set (map fst ?d2) = set (map fst ?d1)"
    using addMediaSource_keys [OF k1, of cb camera target] s1 by auto
  have d1: "distinct (map fst ?d1)"
    using grows_addMediaSource [of ds cb camera target] assms(2) by (simp add: grows_def)
  have d2: "distinct (map fst ?d2)"
    using grows_addMediaSource [of ?d1 cb camera target] d1 by (simp add: grows_def)
  obtain added where a: "map fst ?d2 = map fst ?d1 @ added"
    using grows_addMediaSource [of ?d1 cb camera target] by (auto simp: grows_def extends_def)
  have sub: "set added \<subseteq> set (map fst ?d1)" using s2 a by auto
  have dis: "set added \<inter> set (map fst ?d1) = {}" using d2 a by auto
  have "set added \<inter> set (map fst ?d1) = set added" using sub by (rule inf.absorb1)
  with dis have "set added = {}" by simp
  then have "added = []" by simp
  then show ?thesis using a by simp
qed

lemma wf_addMediaSource: "wf_dataset ds \<Longrightarrow> wf_dataset (addMediaSource cb camera target ds)"
  using grows_addMediaSource [of ds cb camera target] addMediaSource_keys [of ds cb camera target]
  by (simp add: wf_dataset_def grows_def)

lemma wf_merges: "wf_dataset ds \<Longrightarrow> wf_dataset (merges cb ms ds)"
  unfolding merges_def
  by (induction ms arbitrary: ds) (simp_all add: wf_addMediaSource)

lemma wf_empty: "wf_dataset []"
  by (simp add: wf_dataset_def keys_ok_def)

lemma kept_addMediaSource:
  "ds_get ds i = Some old \<Longrightarrow>
     \<exists>new. ds_get (addMediaSource cb camera target ds) i = Some new \<and> keeps_resolved old new"
  using grows_addMediaSource [of ds cb camera target] by (simp add: grows_def ds_keeps_def ds_get_def)

lemma kept_merges:
  "ds_get ds i = Some old \<Longrightarrow>
     \<exists>new. ds_get (merges cb ms ds) i = Some new \<and> keeps_resolved old new"
  using grows_merges [of ds cb ms] by (simp add: grows_def ds_keeps_def ds_get_def)

lemma clip_joins_snapshot:
  "map (\<lambda>p. (fst p, clip (snd p), snapshot (snd p)))
     (addMediaSource cb ''front'' (folder [example_clip])
        (addMediaSource cb ''front'' (folder [example_snapshot]) [])) =
   [(''e1'', Some example_clip, Some example_snapshot)]"
  by (simp add: addMediaSource_def addChild_def folder_def example_clip_def example_snapshot_def
      example_event_def ds_get_def ds_update_def ds_update_one_def ds_modify_def set_fields_def
      has_end_time_def new_item_def merge_item_def Let_def)

lemma merge_item_self: "merge_item it it = it"
  by (cases "item_end it"; cases "item_type it"; cases "clip it"; cases "snapshot it")
     (simp_all add: merge_item_def)

lemma latest_Nil: "latest P f [] d = d"
  by (simp add: latest_def)

lemma latest_Cons: "latest P f (c # cs) d = latest P f cs (if P c then Some (f c) else d)"
  by (simp add: latest_def)

lemma latest_append: "latest P f (xs @ ys) d = latest P f ys (latest P f xs d)"
  by (simp add: latest_def)

lemma latest_none: "\<forall>c \<in> set cs. \<not> P c \<Longrightarrow> latest P f cs d = d"
  by (induction cs arbitrary: d) (simp_all add: latest_Nil latest_Cons)

lemma merged_item_Nil: "merged_item i [] old = old"
  by (simp add: merged_item_def latest_Nil)

lemma merged_item_skip: "\<not> kept_for i child \<Longrightarrow> merged_item i (child # cs) old = merged_item i cs old"
  by (simp add: merged_item_def latest_Cons video_for_def image_for_def)

lemma merged_item_kept:
  assumes "kept_for i child" and "frigate child = Some e"
  shows "merged_item i (child # cs) old = merged_item i cs (set_fields child e old)"
proof -
  have ty: "media_content_type child = ''video'' \<or> media_content_type child = ''image''"
    using assms by (simp add: kept_for_def)
  have he: "child_has_end child = has_end_time e" and ce: "child_end child = the (end_time e) * 1000"
    using assms by (simp_all add: child_has_end_def child_end_def)
  from ty show ?thesis
  proof
    assume v: "media_content_type child = ''video''"
    then have "video_for i child" and "\<not> image_for i child"
      using assms by (simp_all add: video_for_def image_for_def)
    then show ?thesis using assms(1) v he ce
      by (cases "has_end_time e")
         (simp_all add: merged_item_def latest_Cons set_fields_def Let_def)
  next
    assume m: "media_content_type child = ''image''"
    then have "image_for i child" and "\<not> video_for i child"
      using assms by (simp_all add: video_for_def image_for_def)
    then show ?thesis using assms(1) m he ce
      by (cases "has_end_time e")
         (simp_all add: merged_item_def latest_Cons set_fields_def Let_def)
  qed
qed

lemma kept_for_iff:
  "kept_for i child \<longleftrightarrow>
     (\<exists>e. frigate child = Some e \<and> event_id e = i
          \<and> media_content_type child \<in> set [''video'', ''image''])"
  by (cases "frigate child") (simp_all add: kept_for_def del: list.set insert_iff)

lemma addChild_entry:
  assumes "map_of (fst st) i = Some old"
  shows "map_of (fst (addChild cb camera child st)) i =
           Some (if kept_for i child then set_fields child (the (frigate child)) old else old)"
proof (cases "frigate child = None \<or> \<not> media_content_type child \<in> set [''video'', ''image'']")
  case True
  then have "\<not> kept_for i child" unfolding kept_for_iff by (auto simp del: list.set insert_iff)
  then show ?thesis using assms by (simp add: addChild_skip [OF True])
next
  case False
  have ty: "media_content_type child \<in> set [''video'', ''image'']"
    using False by (simp del: list.set insert_iff)
  have "frigate child \<noteq> None" using False by (simp del: list.set insert_iff)
  then obtain e where ev: "frigate child = Some e" by (cases "frigate child") simp_all
  have k: "kept_for i child \<longleftrightarrow> event_id e = i"
    unfolding kept_for_iff using ev ty by (auto simp del: list.set insert_iff)
  show ?thesis
  proof (cases "ds_get (fst st) (event_id e)")
    case None
    then have "event_id e \<noteq> i" using assms by (auto simp: ds_get_def)
    then show ?thesis using assms k by (simp add: addChild_fresh [OF ev ty None])
  next
    case (Some stored)
    show ?thesis unfolding addChild_stored [OF ev ty Some]
      using assms k ev by (auto simp: map_of_ds_modify)
  qed
qed

lemma fold_addChild_entry:
  "map_of (fst st) i = Some old \<Longrightarrow>
     map_of (fst (fold (addChild cb camera) cs st)) i = Some (merged_item i cs old)"
proof (induction cs arbitrary: st old)
  case Nil
  then show ?case by (simp add: merged_item_Nil)
next
  case (Cons child cs)
  note one = addChild_entry [OF Cons.prems, of cb camera child]
  show ?case
  proof (cases "kept_for i child")
    case True
    then obtain e where ev: "frigate child = Some e" unfolding kept_for_iff by blast
    from one True ev
    have "map_of (fst (addChild cb camera child st)) i = Some (set_fields child e old)" by simp
    from Cons.IH [OF this] show ?thesis
      by (simp add: merged_item_kept [OF True ev])
  next
    case False
    with one have "map_of (fst (addChild cb camera child st)) i = Some old" by simp
    from Cons.IH [OF this] show ?thesis by (simp add: merged_item_skip [OF False])
  qed
qed

lemma fresh_new_addChild:
  assumes "fresh_new (snd st) (fst st)"
  shows "fresh_new (snd (addChild cb camera child st)) (fst (addChild cb camera child st))"
proof (cases "frigate child = None \<or> \<not> media_content_type child \<in> set [''video'', ''image'']")
  case True
  show ?thesis unfolding addChild_skip [OF True] by (rule assms)
next
  case False
  have ty: "media_content_type child \<in> set [''video'', ''image'']"
    using False by (simp del: list.set insert_iff)
  have "frigate child \<noteq> None" using False by (simp del: list.set insert_iff)
  then obtain e where ev: "frigate child = Some e" by (cases "frigate child") simp_all
  show ?thesis
  proof (cases "ds_get (fst st) (event_id e)")
    case None
    then have "event_id e \<notin> set (map fst (fst st))"
      by (simp add: ds_get_def map_of_eq_None_iff)
    then show ?thesis unfolding addChild_fresh [OF ev ty None] using assms
      by (auto simp: fresh_new_def item_id_set_fields new_item_def)
  next
    case (Some stored)
    show ?thesis unfolding addChild_stored [OF ev ty Some] using assms
      by (auto simp: fresh_new_def keys_ds_modify)
  qed
qed

lemma fresh_new_fold:
  "fresh_new (snd st) (fst st) \<Longrightarrow>
     fresh_new (snd (fold (addChild cb camera) cs st)) (fst (fold (addChild cb camera) cs st))"
  by (induction cs arbitrary: st) (simp_all add: fresh_new_addChild)

lemma update_one_entry:
  assumes "keys_ok ds" and "\<forall>j. r = Stored j \<longrightarrow> j \<in> set (map fst ds)"
    and "\<forall>it. r = Fresh it \<longrightarrow> item_id it \<noteq> i"
  shows "map_of (ds_update_one r ds) i = map_of ds i"
proof (cases r)
  case (Fresh it)
  then show ?thesis using assms(3) by (simp add: ds_update_one_def map_of_ds_upsert)
next
  case (Stored j)
  with assms(2) have "j \<in> set (map fst ds)" by simp
  then have "map_of ds j \<noteq> None" by (simp add: map_of_eq_None_iff)
  then obtain it where it: "map_of ds j = Some it" by blast
  then have id: "item_id it = j" using assms(1) keys_ok_lookup by blast
  show ?thesis using Stored it id
    by (simp add: ds_update_one_def ds_get_def map_of_ds_upsert merge_item_self)
qed

lemma update_entry:
  "keys_ok ds \<Longrightarrow> stored_in items ds \<Longrightarrow> \<forall>it. Fresh it \<in> set items \<longrightarrow> item_id it \<noteq> i \<Longrightarrow>
     map_of (ds_update items ds) i = map_of ds i"
  unfolding ds_update_def
proof (induction items arbitrary: ds)
  case Nil
  then show ?case by simp
next
  case (Cons r items)
  have r: "\<forall>j. r = Stored j \<longrightarrow> j \<in> set (map fst ds)"
    using Cons.prems(2) by (simp add: stored_in_def)
  have f: "\<forall>it. r = Fresh it \<longrightarrow> item_id it \<noteq> i" using Cons.prems(3) by simp
  note keys = update_one_keys [OF Cons.prems(1) r]
  have s: "stored_in items (ds_update_one r ds)"
    using Cons.prems(2) keys by (auto simp: stored_in_def)
  have n: "\<forall>it. Fresh it \<in> set items \<longrightarrow> item_id it \<noteq> i" using Cons.prems(3) by simp
  from Cons.IH [OF conjunct1 [OF keys] s n] update_one_entry [OF Cons.prems(1) r f]
  show ?case by simp
qed

lemma addMediaSource_entry:
  assumes "wf_dataset ds" and "ds_get ds i = Some old"
  shows "ds_get (addMediaSource cb camera target ds) i =
           Some (merged_item i (child_list target) old)"
proof -
  let ?st = "fold (addChild cb camera) (child_list target) (ds, [])"
  have k0: "keys_ok (fst (ds, []))" using assms(1) by (simp add: wf_dataset_def)
  have s0: "stored_in (snd (ds, [])) (fst (ds, []))" by (simp add: stored_in_def)
  have f0: "fresh_new (snd (ds, [])) (fst (ds, []))" by (simp add: fresh_new_def)
  from fold_addChild_keys [OF k0 s0, of cb camera "child_list target"]
  have k: "keys_ok (fst ?st)" and s: "stored_in (snd ?st) (fst ?st)"
    and m: "map fst (fst ?st) = map fst ds" by simp_all
  have e: "map_of (fst ?st) i = Some (merged_item i (child_list target) old)"
    using fold_addChild_entry [of "(ds, [])" i old cb camera "child_list target"] assms(2)
    by (simp add: ds_get_def)
  have "map_of (fst ?st) i \<noteq> None" using e by simp
  then have mem: "i \<in> set (map fst (fst ?st))" by (simp add: map_of_eq_None_iff)
  have n: "\<forall>it. Fresh it \<in> set (snd ?st) \<longrightarrow> item_id it \<noteq> i"
    using fresh_new_fold [OF f0, of cb camera "child_list target"] mem
    by (auto simp: fresh_new_def)
  have a: "addMediaSource cb camera target ds = ds_update (snd ?st) (fst ?st)"
    by (simp add: addMediaSource_def Let_def child_list_def)
  show ?thesis unfolding a ds_get_def using update_entry [OF k s n] e by simp
qed

lemma merges_entry:
  "wf_dataset ds \<Longrightarrow> ds_get ds i = Some old \<Longrightarrow>
     ds_get (merges cb ms ds) i = Some (fold (\<lambda>m. merged_item i (child_list (snd m))) ms old)"
proof (induction ms arbitrary: ds old)
  case Nil
  then show ?case by (simp add: merges_def)
next
  case (Cons m ms)
  have w: "wf_dataset (addMediaSource cb (fst m) (snd m) ds)"
    by (rule wf_addMediaSource [OF Cons.prems(1)])
  have e: "ds_get (addMediaSource cb (fst m) (snd m) ds) i =
             Some (merged_item i (child_list (snd m)) old)"
    by (rule addMediaSource_entry [OF Cons.prems])
  from Cons.IH [OF w e] show ?case by (simp add: merges_def)
qed

lemma one_per_identifier:
  "distinct (map fst ds) \<Longrightarrow> length (filter (\<lambda>p. fst p = i) ds) \<le> 1"
proof (induction ds)
  case Nil
  show ?case by simp
next
  case (Cons p ds)
  show ?case
  proof (cases "fst p = i")
    case True
    then have "i \<notin> fst ` set ds" using Cons.prems by auto
    then have "filter (\<lambda>p. fst p = i) ds = []" by (auto simp: filter_empty_conv)
    then show ?thesis using True by simp
  next
    case False
    then show ?thesis using Cons by simp
  qed
qed

lemma clip_joins:
  assumes "child_list target = before @ child # after" and "video_for i child"
    and "\<forall>c \<in> set after. \<not> video_for i c"
    and "\<forall>c \<in> set (child_list target). \<not> image_for i c"
  shows "clip (merged_item i (child_list target) old) = Some child"
    and "snapshot (merged_item i (child_list target) old) = snapshot old"
proof -
  have "latest (video_for i) (\<lambda>c. c) (child_list target) (clip old) = Some child"
    unfolding assms(1) using assms(2) latest_none [OF assms(3)]
    by (simp add: latest_append latest_Cons)
  then show "clip (merged_item i (child_list target) old) = Some child"
    by (simp add: merged_item_def)
  show "snapshot (merged_item i (child_list target) old) = snapshot old"
    using latest_none [OF assms(4)] by (simp add: merged_item_def)
qed

lemma other_fields_kept:
  "item_id (merged_item i cs old) = item_id old"
  "item_group (merged_item i cs old) = item_group old"
  "item_content (merged_item i cs old) = item_content old"
  "item_title (merged_item i cs old) = item_title old"
  "item_start (merged_item i cs old) = item_start old"
  "item_event (merged_item i cs old) = item_event old"
  by (simp_all add: merged_item_def)
lemma stored_once:
  assumes "distinct (map fst ds)" and "ds_get ds i = Some it"
  shows "length (filter (\<lambda>p. fst p = i) ds) = 1"
proof -
  have "(i, it) \<in> set ds" using assms(2) by (simp add: ds_get_def map_of_SomeD)
  then have "\<exists>x \<in> set ds. fst x = i" by (intro bexI [of _ "(i, it)"]) simp_all
  then have "filter (\<lambda>p. fst p = i) ds \<noteq> []" by (simp add: filter_empty_conv)
  then have "length (filter (\<lambda>p. fst p = i) ds) \<ge> 1" by (cases "filter (\<lambda>p. fst p = i) ds") simp_all
  with one_per_identifier [OF assms(1), of i] show ?thesis by simp
qed

text \<open>
  C2.  At most one timeline item per event identifier, whatever sequence of merges has
  built the dataset.  One merge into a well-formed dataset leaves it well formed, keeps
  every identifier it had in its place (new ones follow), and merging the same source a
  second time adds no identifier at all.  Merging into an item that is stored updates
  that item and adds none: afterwards exactly one item is stored under the identifier,
  and it is the old item in which the clip is the last video the source has for the
  event (the old clip if it has none), the snapshot the last image (the old snapshot if it
  has none), end and type those of the last child for the event, and every other field
  as it was; the same holds along any sequence of merges.  So merging a clip for an event
  whose item has a snapshot and no image in the source gives one item that carries that
  clip and the snapshot it had.
\<close>

theorem addMediaSource_one_item_per_event:
  "wf_dataset (merges cb ms [])
   \<and> length (filter (\<lambda>p. fst p = i) (merges cb ms [])) \<le> 1
   \<and> (wf_dataset ds \<longrightarrow>
        wf_dataset (addMediaSource cb camera target ds)
        \<and> wf_dataset (merges cb ms ds)
        \<and> extends ds (addMediaSource cb camera target ds)
        \<and> map fst (addMediaSource cb camera target (addMediaSource cb camera target ds)) =
            map fst (addMediaSource cb camera target ds))
   \<and> (wf_dataset ds \<and> ds_get ds i = Some old \<longrightarrow>
        ds_get (addMediaSource cb camera target ds) i = Some (merged_item i (child_list target) old)
        \<and> length (filter (\<lambda>p. fst p = i) (addMediaSource cb camera target ds)) = 1
        \<and> ds_get (merges cb ms ds) i =
            Some (fold (\<lambda>m. merged_item i (child_list (snd m))) ms old))
   \<and> (wf_dataset ds \<and> ds_get ds i = Some old \<and> child_list target = before @ child # after
        \<and> video_for i child \<and> (\<forall>c \<in> set after. \<not> video_for i c)
        \<and> (\<forall>c \<in> set (child_list target). \<not> image_for i c) \<longrightarrow>
        (\<exists>new. ds_get (addMediaSource cb camera target ds) i = Some new
               \<and> clip new = Some child \<and> snapshot new = snapshot old))
   \<and> (item_id (merged_item i cs old) = item_id old
        \<and> item_group (merged_item i cs old) = item_group old
        \<and> item_content (merged_item i cs old) = item_content old
        \<and> item_title (merged_item i cs old) = item_title old
        \<and> item_start (merged_item i cs old) = item_start old
        \<and> item_event (merged_item i cs old) = item_event old)
   \<and> map (\<lambda>p. (fst p, clip (snd p), snapshot (snd p)))
        (addMediaSource cb ''front'' (folder [example_clip])
           (addMediaSource cb ''front'' (folder [example_snapshot]) [])) =
      [(''e1'', Some example_clip, Some example_snapshot)]"
proof -
  have a: "wf_dataset (merges cb ms [])" by (rule wf_merges [OF wf_empty])
  have a2: "length (filter (\<lambda>p. fst p = i) (merges cb ms [])) \<le> 1"
  proof -
    from a have "distinct (map fst (merges cb ms []))" by (simp add: wf_dataset_def)
    then show ?thesis by (rule one_per_identifier)
  qed
  have b: "wf_dataset ds \<longrightarrow>
        wf_dataset (addMediaSource cb camera target ds)
        \<and> wf_dataset (merges cb ms ds)
        \<and> extends ds (addMediaSource cb camera target ds)
        \<and> map fst (addMediaSource cb camera target (addMediaSource cb camera target ds)) =
            map fst (addMediaSource cb camera target ds)"
    using wf_addMediaSource [of ds cb camera target] wf_merges [of ds cb ms]
      grows_addMediaSource [of ds cb camera target]
      addMediaSource_twice_keys [of ds cb camera target]
    by (simp add: grows_def wf_dataset_def)
  have c: "wf_dataset ds \<and> ds_get ds i = Some old \<longrightarrow>
        ds_get (addMediaSource cb camera target ds) i = Some (merged_item i (child_list target) old)
        \<and> length (filter (\<lambda>p. fst p = i) (addMediaSource cb camera target ds)) = 1
        \<and> ds_get (merges cb ms ds) i =
            Some (fold (\<lambda>m. merged_item i (child_list (snd m))) ms old)"
  proof
    assume h: "wf_dataset ds \<and> ds_get ds i = Some old"
    then have w: "wf_dataset ds" and g: "ds_get ds i = Some old" by simp_all
    note e = addMediaSource_entry [OF w g, of cb camera target]
    have d: "distinct (map fst (addMediaSource cb camera target ds))"
      using wf_addMediaSource [OF w, of cb camera target] by (simp add: wf_dataset_def)
    from e stored_once [OF d e] merges_entry [OF w g, of cb ms]
    show "ds_get (addMediaSource cb camera target ds) i = Some (merged_item i (child_list target) old)
        \<and> length (filter (\<lambda>p. fst p = i) (addMediaSource cb camera target ds)) = 1
        \<and> ds_get (merges cb ms ds) i =
            Some (fold (\<lambda>m. merged_item i (child_list (snd m))) ms old)"
      by (intro conjI)
  qed
  have d: "wf_dataset ds \<and> ds_get ds i = Some old \<and> child_list target = before @ child # after
        \<and> video_for i child \<and> (\<forall>c \<in> set after. \<not> video_for i c)
        \<and> (\<forall>c \<in> set (child_list target). \<not> image_for i c) \<longrightarrow>
        (\<exists>new. ds_get (addMediaSource cb camera target ds) i = Some new
               \<and> clip new = Some child \<and> snapshot new = snapshot old)"
  proof
    assume h: "wf_dataset ds \<and> ds_get ds i = Some old \<and> child_list target = before @ child # after
        \<and> video_for i child \<and> (\<forall>c \<in> set after. \<not> video_for i c)
        \<and> (\<forall>c \<in> set (child_list target). \<not> image_for i c)"
    then have w: "wf_dataset ds" and g: "ds_get ds i = Some old"
      and l: "child_list target = before @ child # after" and v: "video_for i child"
      and na: "\<forall>c \<in> set after. \<not> video_for i c"
      and ni: "\<forall>c \<in> set (child_list target). \<not> image_for i c" by simp_all
    from addMediaSource_entry [OF w g, of cb camera target] clip_joins [OF l v na ni, of old]
    show "\<exists>new. ds_get (addMediaSource cb camera target ds) i = Some new
               \<and> clip new = Some child \<and> snapshot new = snapshot old"
      by blast
  qed
  have e: "item_id (merged_item i cs old) = item_id old
        \<and> item_group (merged_item i cs old) = item_group old
        \<and> item_content (merged_item i cs old) = item_content old
        \<and> item_title (merged_item i cs old) = item_title old
        \<and> item_start (merged_item i cs old) = item_start old
        \<and> item_event (merged_item i cs old) = item_event old"
    by (simp add: other_fields_kept)
  note s = clip_joins_snapshot [of cb]
  show ?thesis
    by (rule conjI [OF a conjI [OF a2 conjI [OF b conjI [OF c conjI [OF d conjI [OF e s]]]]]])
qed

theorem addMediaSource_one_item_per_event_witness:
  "wf_dataset [(''e1'', example_item)]
   \<and> ds_get [(''e1'', example_item)] ''e1'' = Some example_item
   \<and> child_list (folder [example_clip]) = [] @ example_clip # []
   \<and> video_for ''e1'' example_clip
   \<and> wf_dataset (addMediaSource no_callbacks ''front'' (folder [example_clip]) [(''e1'', example_item)])
   \<and> length (filter (\<lambda>p. fst p = ''e1'')
        (addMediaSource no_callbacks ''front'' (folder [example_clip]) [(''e1'', example_item)])) = 1
   \<and> (\<exists>new. ds_get (addMediaSource no_callbacks ''front'' (folder [example_clip])
                      [(''e1'', example_item)]) ''e1'' = Some new
            \<and> clip new = Some example_clip \<and> snapshot new = snapshot example_item)"
proof -
  have h1: "wf_dataset [(''e1'', example_item)]"
    by (simp add: wf_dataset_def keys_ok_def example_item_def)
  have h2: "ds_get [(''e1'', example_item)] ''e1'' = Some example_item"
    by (simp add: ds_get_def)
  have h3: "child_list (folder [example_clip]) = [] @ example_clip # []"
    by (simp add: child_list_def folder_def)
  have h4: "video_for ''e1'' example_clip"
    by (simp add: video_for_def kept_for_def example_clip_def example_event_def)
  have h5: "\<forall>c \<in> set []. \<not> video_for ''e1'' c" by simp
  have h6: "\<forall>c \<in> set (child_list (folder [example_clip])). \<not> image_for ''e1'' c"
    by (simp add: child_list_def folder_def image_for_def example_clip_def)
  note t = addMediaSource_one_item_per_event
      [where cb = no_callbacks and ms = "[]" and ds = "[(''e1'', example_item)]"
         and camera = "''front''" and target = "folder [example_clip]" and i = "''e1''"
         and old = example_item and before = "[]" and child = example_clip and after = "[]"
         and cs = "[]"]
  note t3 = conjunct1 [OF conjunct2 [OF conjunct2 [OF t]]]
  note t4 = conjunct1 [OF conjunct2 [OF conjunct2 [OF conjunct2 [OF t]]]]
  note t5 = conjunct1 [OF conjunct2 [OF conjunct2 [OF conjunct2 [OF conjunct2 [OF t]]]]]
  have a1: "wf_dataset (addMediaSource no_callbacks ''front'' (folder [example_clip])
              [(''e1'', example_item)])"
    using mp [OF t3 h1] by (rule conjunct1)
  have a2: "length (filter (\<lambda>p. fst p = ''e1'')
        (addMediaSource no_callbacks ''front'' (folder [example_clip]) [(''e1'', example_item)])) = 1"
    using mp [OF t4 conjI [OF h1 h2]] by (rule conjunct1 [OF conjunct2])
  have a3: "\<exists>new. ds_get (addMediaSource no_callbacks ''front'' (folder [example_clip])
                      [(''e1'', example_item)]) ''e1'' = Some new
            \<and> clip new = Some example_clip \<and> snapshot new = snapshot example_item"
    by (rule mp [OF t5]) (intro conjI h1 h2 h3 h4 h5 h6)
  from h1 h2 h3 h4 a1 a2 a3 show ?thesis by (intro conjI)
qed

section \<open>The desired window\<close>

lemma toInteger_of_int: "toInteger (of_int n) = n"
  by (simp add: toInteger_def)

lemma toInteger_example: "toInteger (146403 / 4) = 36600"
proof -
  have "\<lfloor>146403 / 4 :: rat\<rfloor> = 36600" by (rule floor_unique) simp_all
  then show ?thesis by (simp add: toInteger_def)
qed

text \<open>
  The claim fails in two places.  An event that starts at 36600.75 s and ends at 36900 s
  gets a window that starts at 33000000 ms, which is not its start minus one hour
  (33000750 ms): the fraction of the second is dropped.  An event without an end that
  starts at 36600 s gets the window [33000000, 36600000], which is one hour long and not
  two.
\<close>

theorem no_end_window_counterexample:
  "of_int (fst (getStartEndFromEvent (example_event\<lparr>start_time := 146403 / 4\<rparr>)))
     \<noteq> start_time (example_event\<lparr>start_time := 146403 / 4\<rparr>) * 1000 - 3600000
   \<and> snd (getStartEndFromEvent (example_event\<lparr>end_time := None\<rparr>))
       - fst (getStartEndFromEvent (example_event\<lparr>end_time := None\<rparr>)) \<noteq> 2 * 3600000"
proof -
  have a: "fst (getStartEndFromEvent (example_event\<lparr>start_time := 146403 / 4\<rparr>)) = 33000000"
    by (simp add: getStartEndFromEvent_def fromUnixTime_def sub_hours_def toInteger_example Let_def)
  have b: "snd (getStartEndFromEvent (example_event\<lparr>end_time := None\<rparr>))
       - fst (getStartEndFromEvent (example_event\<lparr>end_time := None\<rparr>)) = 3600000"
    by (simp add: getStartEndFromEvent_def has_end_time_def fromUnixTime_def add_hours_def
        sub_hours_def Let_def)
  show ?thesis unfolding a b by simp
qed

text \<open>
  C6 (as amended).  Event times count in whole seconds, their fraction dropped.  For an
  event with an end (present and not zero) the window is
  [start - 1 h, end + 1 h] of these whole seconds; with start \<open>T\<close> and end \<open>T + 300\<close> that
  is [T - 3600, T + 300 + 3600] seconds.  For every event, with or without an end, the
  window starts one hour before the start.  A view whose target carries an event gets
  that event's window; a view without one gets [now - 1 h, now].
\<close>

theorem getStartEnd_windows:
  "(has_end_time event \<longrightarrow>
      getStartEndFromEvent event =
        (toInteger (start_time event) * 1000 - 3600000,
         toInteger (the (end_time event)) * 1000 + 3600000))
   \<and> fst (getStartEndFromEvent event) = toInteger (start_time event) * 1000 - 3600000
   \<and> (T + 300 \<noteq> 0 \<longrightarrow>
      getStartEndFromEvent
        \<lparr>event_id = i, event_label = l, start_time = of_int T, end_time = Some (of_int (T + 300))\<rparr> =
        ((T - 3600) * 1000, (T + 300 + 3600) * 1000))
   \<and> (target_event vo = Some event \<longrightarrow> getStartEnd now vo = getStartEndFromEvent event)
   \<and> (target_event vo = None \<longrightarrow> getStartEnd now vo = (now - 3600000, now))"
proof -
  have a: "has_end_time event \<longrightarrow>
      getStartEndFromEvent event =
        (toInteger (start_time event) * 1000 - 3600000,
         toInteger (the (end_time event)) * 1000 + 3600000)"
    by (simp add: getStartEndFromEvent_def fromUnixTime_def add_hours_def sub_hours_def Let_def)
  have b: "fst (getStartEndFromEvent event) = toInteger (start_time event) * 1000 - 3600000"
    by (simp add: getStartEndFromEvent_def fromUnixTime_def sub_hours_def Let_def)
  have c: "T + 300 \<noteq> 0 \<longrightarrow>
      getStartEndFromEvent
        \<lparr>event_id = i, event_label = l, start_time = of_int T, end_time = Some (of_int (T + 300))\<rparr> =
        ((T - 3600) * 1000, (T + 300 + 3600) * 1000)"
  proof
    assume "T + 300 \<noteq> 0"
    then have "(of_int (T + 300) :: rat) \<noteq> 0" by (simp only: of_int_eq_0_iff not_False_eq_True)
    with toInteger_of_int [of "T + 300"] show "getStartEndFromEvent
        \<lparr>event_id = i, event_label = l, start_time = of_int T, end_time = Some (of_int (T + 300))\<rparr> =
        ((T - 3600) * 1000, (T + 300 + 3600) * 1000)"
      by (simp add: getStartEndFromEvent_def has_end_time_def fromUnixTime_def add_hours_def
          sub_hours_def Let_def toInteger_of_int)
  qed
  have d: "target_event vo = Some event \<longrightarrow> getStartEnd now vo = getStartEndFromEvent event"
    by (simp add: getStartEnd_def)
  have e: "target_event vo = None \<longrightarrow> getStartEnd now vo = (now - 3600000, now)"
    by (simp add: getStartEnd_def sub_hours_def)
  show ?thesis by (rule conjI [OF a conjI [OF b conjI [OF c conjI [OF d e]]]])
qed

theorem getStartEnd_windows_witness:
  "has_end_time example_event
   \<and> getStartEndFromEvent example_event =
       (toInteger (start_time example_event) * 1000 - 3600000,
        toInteger (the (end_time example_event)) * 1000 + 3600000)
   \<and> (36600 :: int) + 300 \<noteq> 0
   \<and> getStartEndFromEvent
        \<lparr>event_id = ''e1'', event_label = ''person'', start_time = of_int 36600,
         end_time = Some (of_int (36600 + 300))\<rparr> =
       ((36600 - 3600) * 1000, (36600 + 300 + 3600) * 1000)
   \<and> target_event None = None
   \<and> getStartEnd 36000000 None = (36000000 - 3600000, 36000000)
   \<and> target_event (Some example_view) = Some example_event
   \<and> getStartEnd 36000000 (Some example_view) = getStartEndFromEvent example_event"
proof -
  have h1: "has_end_time example_event" by (simp add: has_end_time_def example_event_def)
  have h2: "(36600 :: int) + 300 \<noteq> 0" by simp
  have h3: "target_event None = None" by (simp add: target_event_def)
  have h4: "target_event (Some example_view) = Some example_event"
    by (simp add: target_event_def example_view_def example_clip_def)
  note t1 = getStartEnd_windows [where event = example_event and vo = None and now = 36000000
        and T = 36600 and i = "''e1''" and l = "''person''"]
  note t2 = getStartEnd_windows [where event = example_event and vo = "Some example_view"
        and now = 36000000 and T = 36600 and i = "''e1''" and l = "''person''"]
  note a1 = mp [OF conjunct1 [OF t1] h1]
  note a2 = mp [OF conjunct1 [OF conjunct2 [OF conjunct2 [OF t1]]] h2]
  note a3 = mp [OF conjunct2 [OF conjunct2 [OF conjunct2 [OF conjunct2 [OF t1]]]] h3]
  note a4 = mp [OF conjunct1 [OF conjunct2 [OF conjunct2 [OF conjunct2 [OF t2]]]] h4]
  show ?thesis
    by (rule conjI [OF h1 conjI [OF a1 conjI [OF h2 conjI [OF a2 conjI [OF h3 conjI [OF a3
          conjI [OF h4 a4]]]]]]])
qed

section \<open>Clustering\<close>

text \<open>
  C7.  The clustering predicate holds for a pair of items only if neither identifier is
  that of the event the view's media carries, and both items have the same label.  So it
  never holds when one of the two is the focused event, even with equal labels, and never
  when the labels differ.
\<close>

theorem clusterCriteria_excludes:
  "(clusterCriteria env c first second \<longrightarrow>
      (\<forall>e. media_event env (view c) = Some e \<longrightarrow>
            item_id first \<noteq> event_id e \<and> item_id second \<noteq> event_id e)
      \<and> event_label (item_event first) = event_label (item_event second))
   \<and> (media_event env (view c) = Some e \<and> (item_id first = event_id e \<or> item_id second = event_id e)
        \<longrightarrow> \<not> clusterCriteria env c first second)
   \<and> (event_label (item_event first) \<noteq> event_label (item_event second)
        \<longrightarrow> \<not> clusterCriteria env c first second)"
  by (auto simp: clusterCriteria_def)


theorem clusterCriteria_excludes_witness:
  "clusterCriteria example_env example_core
     (example_item\<lparr>item_id := ''e2''\<rparr>) (example_item\<lparr>item_id := ''e3''\<rparr>)
   \<and> event_label (item_event (example_item\<lparr>item_id := ''e2''\<rparr>)) =
       event_label (item_event (example_item\<lparr>item_id := ''e3''\<rparr>))
   \<and> media_event example_env (view example_core) = Some example_event
   \<and> item_id example_item = event_id example_event
   \<and> \<not> clusterCriteria example_env example_core example_item (example_item\<lparr>item_id := ''e3''\<rparr>)
   \<and> event_label (item_event (example_item\<lparr>item_id := ''e2''\<rparr>))
        \<noteq> event_label (item_event (example_item\<lparr>item_event := example_event\<lparr>event_label := ''car''\<rparr>\<rparr>))
   \<and> \<not> clusterCriteria example_env example_core (example_item\<lparr>item_id := ''e2''\<rparr>)
         (example_item\<lparr>item_event := example_event\<lparr>event_label := ''car''\<rparr>\<rparr>)"
proof -
  have m: "media_event example_env (view example_core) = Some example_event"
    by (simp add: media_event_def example_env_def example_core_def example_view_def example_clip_def)
  have h1: "clusterCriteria example_env example_core
              (example_item\<lparr>item_id := ''e2''\<rparr>) (example_item\<lparr>item_id := ''e3''\<rparr>)"
    unfolding clusterCriteria_def m by (simp add: example_event_def)
  have h2: "item_id example_item = event_id example_event"
    by (simp add: example_item_def example_event_def)
  have h3: "event_label (item_event (example_item\<lparr>item_id := ''e2''\<rparr>))
        \<noteq> event_label (item_event (example_item\<lparr>item_event := example_event\<lparr>event_label := ''car''\<rparr>\<rparr>))"
    by (simp add: example_item_def example_event_def)
  note t1 = clusterCriteria_excludes [where env = example_env and c = example_core
      and e = example_event and first = "example_item\<lparr>item_id := ''e2''\<rparr>"
      and second = "example_item\<lparr>item_id := ''e3''\<rparr>"]
  note t2 = clusterCriteria_excludes [where env = example_env and c = example_core
      and e = example_event and first = example_item
      and second = "example_item\<lparr>item_id := ''e3''\<rparr>"]
  note t3 = clusterCriteria_excludes [where env = example_env and c = example_core
      and e = example_event and first = "example_item\<lparr>item_id := ''e2''\<rparr>"
      and second = "example_item\<lparr>item_event := example_event\<lparr>event_label := ''car''\<rparr>\<rparr>"]
  have a1: "event_label (item_event (example_item\<lparr>item_id := ''e2''\<rparr>)) =
       event_label (item_event (example_item\<lparr>item_id := ''e3''\<rparr>))"
    using mp [OF conjunct1 [OF t1] h1] by (rule conjunct2)
  have a2: "\<not> clusterCriteria example_env example_core example_item (example_item\<lparr>item_id := ''e3''\<rparr>)"
    by (rule mp [OF conjunct1 [OF conjunct2 [OF t2]]]) (rule conjI [OF m disjI1 [OF h2]])
  have a3: "\<not> clusterCriteria example_env example_core (example_item\<lparr>item_id := ''e2''\<rparr>)
         (example_item\<lparr>item_event := example_event\<lparr>event_label := ''car''\<rparr>\<rparr>)"
    by (rule mp [OF conjunct2 [OF conjunct2 [OF t3]] h3])
  from h1 a1 m h2 a2 h3 a3 show ?thesis by (intro conjI)
qed

section \<open>Failing queries\<close>

lemma merges_Nil: "merges cb [] ds = ds"
  by (simp add: merges_def)

lemma merges_append: "merges cb (xs @ ys) ds = merges cb ys (merges cb xs ds)"
  by (simp add: merges_def)

lemma resolved_sources_Cons:
  "resolved_sources env (t # ts) = resolved_sources env [t] @ resolved_sources env ts"
  by (simp add: resolved_sources_def)

lemma rejected_messages_Cons:
  "rejected_messages env (t # ts) = rejected_messages env [t] @ rejected_messages env ts"
  by (simp add: rejected_messages_def)

lemma settled_Nil: "settled env cb [] st = st"
  by (simp add: settled_def resolved_sources_def rejected_messages_def merges_Nil)

lemma settled_Cons: "settled env cb (t # ts) st = settled env cb ts (settled env cb [t] st)"
  by (simp add: settled_def resolved_sources_Cons [of env t ts] rejected_messages_Cons [of env t ts]
      merges_append)

lemma settle_nullish:
  "rejects_nullish env t \<Longrightarrow>
     fetchCameraEvents_settle env cb t st = Inl TypeError \<and> settled env cb [t] st = st"
  by (cases t)
     (simp_all add: rejects_nullish_def fetchCameraEvents_settle_def fetchCameraEvents_try_def
        settled_def resolved_sources_def rejected_messages_def merges_Nil)

lemma settle_other:
  "\<not> rejects_nullish env t \<Longrightarrow>
     fetchCameraEvents_settle env cb t st = Inr (settled env cb [t] st)"
proof (cases t)
  case None
  then show ?thesis
    by (simp add: fetchCameraEvents_settle_def settled_def resolved_sources_def
        rejected_messages_def merges_Nil)
next
  case (Some task)
  assume n: "\<not> rejects_nullish env t"
  show ?thesis
  proof (cases "browseMediaQuery env (snd task)")
    case (Inr target)
    then show ?thesis using Some
      by (simp add: fetchCameraEvents_settle_def fetchCameraEvents_try_def settled_def
          resolved_sources_def rejected_messages_def merges_def)
  next
    case (Inl e)
    with n Some obtain message where "e = Thrown message"
      by (cases e) (simp_all add: rejects_nullish_def)
    with Inl Some show ?thesis
      by (simp add: fetchCameraEvents_settle_def fetchCameraEvents_try_def settled_def
          resolved_sources_def rejected_messages_def merges_Nil)
  qed
qed

lemma promise_all_result:
  "promise_all env cb ts st =
     (if some_nullish env ts then Inl (TypeError, settled env cb ts st)
      else Inr (settled env cb ts st))"
proof (induction ts arbitrary: st)
  case Nil
  show ?case by (simp add: some_nullish_def settled_Nil)
next
  case (Cons t ts)
  show ?case
  proof (cases "rejects_nullish env t")
    case True
    note s = settle_nullish [OF True, of cb st]
    from s have s1: "fetchCameraEvents_settle env cb t st = Inl TypeError"
      and s2: "settled env cb [t] st = st" by simp_all
    have n: "some_nullish env (t # ts)" using True by (simp add: some_nullish_def)
    show ?thesis
      by (simp add: s1 n Cons.IH settled_Cons [of env cb t ts st] s2)
  next
    case False
    note s = settle_other [OF False, of cb st]
    have n: "some_nullish env (t # ts) = some_nullish env ts"
      using False by (simp add: some_nullish_def)
    show ?thesis
      by (simp add: s n Cons.IH settled_Cons [of env cb t ts st])
  qed
qed

lemma fetchEvents_result:
  "fetchEvents env cb now cams mda start endo m =
     (if some_nullish env (arrival env (snd (fetchEvents_begin env now cams mda start endo m)))
      then Inl (TypeError,
             ((fst (fetchEvents_begin env now cams mda start endo m))
                \<lparr>dataset := merges cb
                   (resolved_sources env
                      (arrival env (snd (fetchEvents_begin env now cams mda start endo m))))
                   (dataset (fst (fetchEvents_begin env now cams mda start endo m)))\<rparr>,
              rejected_messages env
                (arrival env (snd (fetchEvents_begin env now cams mda start endo m)))))
      else Inr ((fst (fetchEvents_begin env now cams mda start endo m))
                \<lparr>dataset := merges cb
                   (resolved_sources env
                      (arrival env (snd (fetchEvents_begin env now cams mda start endo m))))
                   (dataset (fst (fetchEvents_begin env now cams mda start endo m)))\<rparr>,
              rejected_messages env
                (arrival env (snd (fetchEvents_begin env now cams mda start endo m)))))"
  by (simp add: fetchEvents_def Let_def promise_all_result settled_def)

lemma rejects_with_value_none: "rejects_with_value env \<Longrightarrow> \<not> some_nullish env ts"
  by (auto simp: rejects_with_value_def some_nullish_def list_ex_iff rejects_nullish_def
      split: option.splits)

lemma mset_concat_map: "mset (concat (map f xs)) = (\<Sum>x \<in># mset xs. mset (f x))"
  by (induction xs) simp_all

lemma mset_resolved_sources:
  "mset ts' = mset ts \<Longrightarrow> mset (resolved_sources env ts') = mset (resolved_sources env ts)"
  by (simp add: resolved_sources_def mset_concat_map)

lemma mset_rejected_messages:
  "mset ts' = mset ts \<Longrightarrow> mset (rejected_messages env ts') = mset (rejected_messages env ts)"
  by (simp add: rejected_messages_def mset_concat_map)

lemma mset_some_nullish:
  "mset ts' = mset ts \<Longrightarrow> some_nullish env ts' = some_nullish env ts"
  using mset_eq_setD [of ts' ts] by (simp add: some_nullish_def list_ex_iff)

lemma fetchEventsIfNecessary_covered:
  "hasCoverage now m s (Some e) \<Longrightarrow>
     fetchEventsIfNecessary env cb now cams mda s e m = Inr ((m, []), False)"
  by (simp add: fetchEventsIfNecessary_def)

lemma fetchEventsIfNecessary_fetches:
  assumes "\<not> hasCoverage now m s (Some e)"
    and "b = fetchEvents_begin env now cams mda (Some s) (Some e) m"
  shows "fetchEventsIfNecessary env cb now cams mda s e m =
           (if some_nullish env (arrival env (snd b))
            then Inl (TypeError,
                   ((fst b)\<lparr>dataset := merges cb (resolved_sources env (arrival env (snd b)))
                                          (dataset (fst b))\<rparr>,
                    rejected_messages env (arrival env (snd b))))
            else Inr (((fst b)\<lparr>dataset := merges cb (resolved_sources env (arrival env (snd b)))
                                           (dataset (fst b))\<rparr>,
                       rejected_messages env (arrival env (snd b))), True))"
  using assms by (simp add: fetchEventsIfNecessary_def fetchEvents_result)

lemma example_begin:
  "snd (fetchEvents_begin env 36005000 [(''back-door'', ''back''), (''front-door'', ''front'')]
          MediaAll (Some 36000000) (Some 39600000) new_TimelineEventManager) =
     map (\<lambda>(mt, cam). fetchCameraEvents_issue env
            [(''back-door'', ''back''), (''front-door'', ''front'')]
            (new_TimelineEventManager\<lparr>dateStart := Some 36000000, dateEnd := Some 39600000,
                                      dateFetch := Some 36005000\<rparr>) cam mt)
       [(MediaClips, ''back-door''), (MediaClips, ''front-door''),
        (MediaSnapshots, ''back-door''), (MediaSnapshots, ''front-door'')]"
  by (simp add: fetchEvents_begin_def widen_fresh Let_def media_kinds_def)

lemma example_fetch:
  "map_prod (\<lambda>m. map fst (dataset m)) id
     (projr (fetchEvents example_env no_callbacks 36005000
        [(''back-door'', ''back''), (''front-door'', ''front'')] MediaAll
        (Some 36000000) (Some 39600000) new_TimelineEventManager)) =
   ([''e1''], [ErrorMessage (Some ''boom''), ErrorMessage (Some ''boom'')])"
proof -
  have n: "\<not> some_nullish example_env ts" for ts
    by (rule rejects_with_value_none) (simp add: rejects_with_value_def example_env_def)
  have a: "arrival example_env = rev" by (simp add: example_env_def)
  show ?thesis
    apply (simp add: fetchEvents_result n a example_begin)
    apply (simp add: fetchCameraEvents_issue_def new_TimelineEventManager_def)
    apply (simp add: resolved_sources_def rejected_messages_def example_env_def merges_def
        fetchEvents_begin_def widen_def Let_def)
    apply (simp add: addMediaSource_def addChild_def folder_def example_clip_def
        example_snapshot_def example_event_def ds_get_def ds_update_def ds_update_one_def
        ds_modify_def set_fields_def has_end_time_def new_item_def merge_item_def Let_def)
    done
qed

lemma nullish_rejects:
  "isl (fetchEventsIfNecessary nullish_env no_callbacks 36005000
          [(''back-door'', ''back''), (''front-door'', ''front'')] MediaAll
          36000000 39600000 new_TimelineEventManager)"
proof -
  have c: "\<not> hasCoverage 36005000 new_TimelineEventManager 36000000 (Some 39600000)"
    by (simp add: hasCoverage_def new_TimelineEventManager_def)
  have a: "arrival nullish_env = rev" by (simp add: nullish_env_def example_env_def)
  have s: "some_nullish nullish_env (arrival nullish_env
             (snd (fetchEvents_begin nullish_env 36005000
                [(''back-door'', ''back''), (''front-door'', ''front'')] MediaAll
                (Some 36000000) (Some 39600000) new_TimelineEventManager)))"
    unfolding a example_begin
    by (simp add: some_nullish_def rejects_nullish_def fetchCameraEvents_issue_def
        nullish_env_def example_env_def new_TimelineEventManager_def)
  show ?thesis
    using fetchEventsIfNecessary_fetches [OF c refl, where env = nullish_env
        and cams = "[(''back-door'', ''back''), (''front-door'', ''front'')]"
        and mda = MediaAll and cb = no_callbacks] s
    by simp
qed

text \<open>
  The claim fails for a query that rejects without a value.  With collaborators whose
  queries all reject with undefined, the \<^verbatim>\<open>catch\<close> clause of a fetch throws instead of
  dispatching an error message, and the coverage-ensuring call rejects.
\<close>

theorem fetch_failure_counterexample:
  "fetchCameraEvents_settle nullish_env no_callbacks
     (Some (''back-door'',
        \<lparr>q_base = ''back'', q_before = 39600, q_after = 36000, q_unlimited = True,
         q_mediaType = MediaClips\<rparr>)) ([], []) = Inl TypeError
   \<and> isl (fetchEventsIfNecessary nullish_env no_callbacks 36005000
          [(''back-door'', ''back''), (''front-door'', ''front'')] MediaAll
          36000000 39600000 new_TimelineEventManager)"
proof -
  have "fetchCameraEvents_settle nullish_env no_callbacks
     (Some (''back-door'',
        \<lparr>q_base = ''back'', q_before = 39600, q_after = 36000, q_unlimited = True,
         q_mediaType = MediaClips\<rparr>)) ([], []) = Inl TypeError"
    by (simp add: fetchCameraEvents_settle_def fetchCameraEvents_try_def nullish_env_def)
  with nullish_rejects show ?thesis by simp
qed

text \<open>
  C8 (as amended).  A query that rejects with a value is caught where it was issued and
  turned into an error message event that carries the value's message; a query that
  rejects with null or undefined makes the \<^verbatim>\<open>catch\<close> clause throw.  In either case the
  other fetches are not aborted: awaiting all promises leaves the dataset with every
  resolved source merged and one error message per query that rejected with a value, in
  whatever order the queries settle.  The coverage-ensuring call resolves with `not
  fetched' and no change when the range is covered; otherwise, once all fetches have
  settled, it resolves with `fetched' if no query rejected with null or undefined (in
  particular whenever every rejection carries a value), and rejects if one did.
\<close>

theorem fetch_failure_is_contained:
  "promise_all env cb ts st =
     (if some_nullish env ts then Inl (TypeError, settled env cb ts st)
      else Inr (settled env cb ts st))
   \<and> settled env cb ts st =
       (merges cb (resolved_sources env ts) (fst st), snd st @ rejected_messages env ts)
   \<and> (mset ts' = mset ts \<longrightarrow>
        mset (resolved_sources env ts') = mset (resolved_sources env ts)
        \<and> mset (rejected_messages env ts') = mset (rejected_messages env ts)
        \<and> some_nullish env ts' = some_nullish env ts)
   \<and> (rejects_with_value env \<longrightarrow> \<not> some_nullish env ts)
   \<and> (hasCoverage now m s (Some e) \<longrightarrow>
        fetchEventsIfNecessary env cb now cams mda s e m = Inr ((m, []), False))
   \<and> (\<not> hasCoverage now m s (Some e)
        \<and> b = fetchEvents_begin env now cams mda (Some s) (Some e) m \<longrightarrow>
        fetchEventsIfNecessary env cb now cams mda s e m =
          (if some_nullish env (arrival env (snd b))
           then Inl (TypeError,
                  ((fst b)\<lparr>dataset := merges cb (resolved_sources env (arrival env (snd b)))
                                         (dataset (fst b))\<rparr>,
                   rejected_messages env (arrival env (snd b))))
           else Inr (((fst b)\<lparr>dataset := merges cb (resolved_sources env (arrival env (snd b)))
                                          (dataset (fst b))\<rparr>,
                      rejected_messages env (arrival env (snd b))), True)))
   \<and> map_prod (\<lambda>m. map fst (dataset m)) id
        (projr (fetchEvents example_env no_callbacks 36005000
           [(''back-door'', ''back''), (''front-door'', ''front'')] MediaAll
           (Some 36000000) (Some 39600000) new_TimelineEventManager)) =
      ([''e1''], [ErrorMessage (Some ''boom''), ErrorMessage (Some ''boom'')])"
proof -
  note a = promise_all_result [of env cb ts st]
  have b': "settled env cb ts st =
       (merges cb (resolved_sources env ts) (fst st), snd st @ rejected_messages env ts)"
    by (simp add: settled_def)
  have c: "mset ts' = mset ts \<longrightarrow>
        mset (resolved_sources env ts') = mset (resolved_sources env ts)
        \<and> mset (rejected_messages env ts') = mset (rejected_messages env ts)
        \<and> some_nullish env ts' = some_nullish env ts"
    using mset_resolved_sources [where ts' = ts' and ts = ts and env = env]
      mset_rejected_messages [where ts' = ts' and ts = ts and env = env]
      mset_some_nullish [where ts' = ts' and ts = ts and env = env] by blast
  have d: "rejects_with_value env \<longrightarrow> \<not> some_nullish env ts"
    using rejects_with_value_none [of env ts] by blast
  have e': "hasCoverage now m s (Some e) \<longrightarrow>
        fetchEventsIfNecessary env cb now cams mda s e m = Inr ((m, []), False)"
    using fetchEventsIfNecessary_covered [where now = now and m = m and s = s and e = e
        and env = env and cb = cb and cams = cams and mda = mda] by blast
  have f: "\<not> hasCoverage now m s (Some e)
        \<and> b = fetchEvents_begin env now cams mda (Some s) (Some e) m \<longrightarrow>
        fetchEventsIfNecessary env cb now cams mda s e m =
          (if some_nullish env (arrival env (snd b))
           then Inl (TypeError,
                  ((fst b)\<lparr>dataset := merges cb (resolved_sources env (arrival env (snd b)))
                                         (dataset (fst b))\<rparr>,
                   rejected_messages env (arrival env (snd b))))
           else Inr (((fst b)\<lparr>dataset := merges cb (resolved_sources env (arrival env (snd b)))
                                          (dataset (fst b))\<rparr>,
                      rejected_messages env (arrival env (snd b))), True))"
    using fetchEventsIfNecessary_fetches [where now = now and m = m and s = s and e = e
        and b = b and env = env and cb = cb and cams = cams and mda = mda] by blast
  show ?thesis
    by (rule conjI [OF a conjI [OF b' conjI [OF c conjI [OF d conjI [OF e' conjI [OF f
          example_fetch]]]]]])
qed

theorem fetch_failure_is_contained_witness:
  "rejects_with_value example_env
   \<and> \<not> hasCoverage 36005000 new_TimelineEventManager 36000000 (Some 39600000)
   \<and> mset (arrival example_env
        (snd (fetchEvents_begin example_env 36005000
                [(''back-door'', ''back''), (''front-door'', ''front'')] MediaAll
                (Some 36000000) (Some 39600000) new_TimelineEventManager))) =
       mset (snd (fetchEvents_begin example_env 36005000
                [(''back-door'', ''back''), (''front-door'', ''front'')] MediaAll
                (Some 36000000) (Some 39600000) new_TimelineEventManager))
   \<and> mset (rejected_messages example_env
        (arrival example_env
          (snd (fetchEvents_begin example_env 36005000
                  [(''back-door'', ''back''), (''front-door'', ''front'')] MediaAll
                  (Some 36000000) (Some 39600000) new_TimelineEventManager)))) =
       mset (rejected_messages example_env
          (snd (fetchEvents_begin example_env 36005000
                  [(''back-door'', ''back''), (''front-door'', ''front'')] MediaAll
                  (Some 36000000) (Some 39600000) new_TimelineEventManager)))
   \<and> snd (projr (fetchEventsIfNecessary example_env no_callbacks 36005000
        [(''back-door'', ''back''), (''front-door'', ''front'')] MediaAll 36000000 39600000
        new_TimelineEventManager))
   \<and> \<not> isl (fetchEventsIfNecessary example_env no_callbacks 36005000
        [(''back-door'', ''back''), (''front-door'', ''front'')] MediaAll 36000000 39600000
        new_TimelineEventManager)
   \<and> hasCoverage 36010000 (events example_core) 36600000 (Some 37000000)
   \<and> fetchEventsIfNecessary example_env no_callbacks 36010000
        [(''back-door'', ''back''), (''front-door'', ''front'')] MediaAll 36600000 37000000
        (events example_core) = Inr ((events example_core, []), False)"
proof -
  let ?cams = "[(''back-door'', ''back''), (''front-door'', ''front'')]"
  let ?b = "fetchEvents_begin example_env 36005000 ?cams MediaAll
              (Some 36000000) (Some 39600000) new_TimelineEventManager"
  have h1: "rejects_with_value example_env"
    by (simp add: rejects_with_value_def example_env_def)
  have h2: "\<not> hasCoverage 36005000 new_TimelineEventManager 36000000 (Some 39600000)"
    by (simp add: hasCoverage_def new_TimelineEventManager_def)
  have h3: "mset (arrival example_env (snd ?b)) = mset (snd ?b)"
    by (simp add: example_env_def)
  have h4: "hasCoverage 36010000 (events example_core) 36600000 (Some 37000000)"
    by (simp add: hasCoverage_def example_core_def new_TimelineEventManager_def
        TIMELINE_EVENT_MANAGER_MAX_AGE_SECONDS_def)
  note t1 = fetch_failure_is_contained
      [where env = example_env and cb = no_callbacks and ts = "snd ?b"
         and ts' = "arrival example_env (snd ?b)" and now = 36005000
         and m = new_TimelineEventManager and s = 36000000 and e = 39600000 and cams = ?cams
         and mda = MediaAll and b = ?b and st = "([], [])"]
  note t2 = fetch_failure_is_contained
      [where env = example_env and cb = no_callbacks and ts = "arrival example_env (snd ?b)"
         and ts' = "arrival example_env (snd ?b)" and now = 36010000
         and m = "events example_core" and s = 36600000 and e = 37000000 and cams = ?cams
         and mda = MediaAll and b = ?b and st = "([], [])"]
  note perm = mp [OF conjunct1 [OF conjunct2 [OF conjunct2 [OF t1]]] h3]
  note a1 = conjunct1 [OF conjunct2 [OF perm]]
  have n: "\<not> some_nullish example_env (arrival example_env (snd ?b))"
    by (rule mp [OF conjunct1 [OF conjunct2 [OF conjunct2 [OF conjunct2 [OF t2]]]] h1])
  note eq = mp [OF conjunct1 [OF conjunct2 [OF conjunct2 [OF conjunct2 [OF conjunct2
                 [OF conjunct2 [OF t1]]]]]] conjI [OF h2 refl]]
  have a2: "snd (projr (fetchEventsIfNecessary example_env no_callbacks 36005000 ?cams MediaAll
                36000000 39600000 new_TimelineEventManager))"
    and a3: "\<not> isl (fetchEventsIfNecessary example_env no_callbacks 36005000 ?cams MediaAll
                36000000 39600000 new_TimelineEventManager)"
    unfolding eq using n by simp_all
  note a4 = mp [OF conjunct1 [OF conjunct2 [OF conjunct2 [OF conjunct2 [OF conjunct2 [OF t2]]]]]
                h4]
  show ?thesis
    by (rule conjI [OF h1 conjI [OF h2 conjI [OF h3 conjI [OF a1 conjI [OF a2 conjI [OF a3
          conjI [OF h4 a4]]]]]]])
qed

section \<open>Range changes of the widget\<close>

lemma issue_ignores_query:
  "fetchCameraEvents_issue (env\<lparr>browseMediaQuery := q\<rparr>) cams m camera mt =
   fetchCameraEvents_issue env cams m camera mt"
  by (simp add: fetchCameraEvents_issue_def split: option.splits)

lemma begin_ignores_query:
  "fetchEvents_begin (env\<lparr>browseMediaQuery := q\<rparr>) now cams mda start endo m =
   fetchEvents_begin env now cams mda start endo m"
  by (simp add: fetchEvents_begin_def issue_ignores_query Let_def)

lemma if_begin_ignores_query:
  "fetchEventsIfNecessary_begin (env\<lparr>browseMediaQuery := q\<rparr>) now cams mda s e m =
   fetchEventsIfNecessary_begin env now cams mda s e m"
  by (simp add: fetchEventsIfNecessary_begin_def begin_ignores_query)

lemma dataset_widen: "dataset (widen m start endo) = dataset m"
  by (simp add: widen_def Let_def)

lemma dataset_begin: "dataset (fst (fetchEvents_begin env now cams mda start endo m)) = dataset m"
  by (simp add: fetchEvents_begin_def Let_def dataset_widen)

lemma dataset_if_begin:
  "dataset (fst (fetchEventsIfNecessary_begin env now cams mda s e m)) = dataset m"
  by (simp add: fetchEventsIfNecessary_begin_def Let_def dataset_begin)

lemma rangeHandler_ignores_query:
  "timelineRangeHandler (env\<lparr>browseMediaQuery := q\<rparr>) now c p = timelineRangeHandler env now c p"
  by (simp add: timelineRangeHandler_def if_begin_ignores_query)

lemma rangeHandler_not_byUser:
  "\<not> byUser p \<Longrightarrow> timelineRangeHandler env now c p = (c, [], None)"
  by (simp add: timelineRangeHandler_def)

lemma rangeHandler_byUser:
  assumes "byUser p" "hass c \<noteq> None" "cameras c \<noteq> None" "timelineConfig c \<noteq> None"
    "timeline c = Some widget" "view c = Some v"
  shows "fst (snd (timelineRangeHandler env now c p)) =
           [ViewChange (evolve_context v (tl_window widget))]"
    and "dataset (events (fst (timelineRangeHandler env now c p))) = dataset (events c)"
    and "thumbnails (fst (timelineRangeHandler env now c p)) = thumbnails c"
    and "snd (snd (timelineRangeHandler env now c p)) \<noteq> None"
  using assms by (simp_all add: timelineRangeHandler_def Let_def dataset_if_begin)

text \<open>
  C9.  A range change that is not flagged as made by the user leaves the component as it
  is: nothing is dispatched and no fetch is started.  For a user-made range change on an
  initialised component (home assistant, cameras, configuration, widget and view present)
  the synchronous run of the handler dispatches exactly one view change, whose context
  holds the window the widget shows (the new range, as the widget reports it); by then no
  query result has been merged and the thumbnails are untouched, the fetch is left in
  flight, and the run does not depend on how the queries will settle.  Console logging
  is not modelled.
\<close>

theorem timelineRangeHandler_user_driven:
  "(\<not> byUser p \<longrightarrow> timelineRangeHandler env now c p = (c, [], None))
   \<and> (byUser p \<and> hass c \<noteq> None \<and> cameras c \<noteq> None \<and> timelineConfig c \<noteq> None
        \<and> timeline c = Some widget \<and> view c = Some v \<longrightarrow>
        fst (snd (timelineRangeHandler env now c p)) =
          [ViewChange (evolve_context v (tl_window widget))]
        \<and> context_window (evolve_context v (tl_window widget)) = Some (tl_window widget)
        \<and> (tl_window widget = \<lparr>w_start = r_start p, w_end = r_end p\<rparr> \<longrightarrow>
             context_window (evolve_context v (tl_window widget)) =
               Some \<lparr>w_start = r_start p, w_end = r_end p\<rparr>)
        \<and> dataset (events (fst (timelineRangeHandler env now c p))) = dataset (events c)
        \<and> thumbnails (fst (timelineRangeHandler env now c p)) = thumbnails c
        \<and> snd (snd (timelineRangeHandler env now c p)) \<noteq> None
        \<and> timelineRangeHandler (env\<lparr>browseMediaQuery := q\<rparr>) now c p =
            timelineRangeHandler env now c p)"
proof -
  have cw: "context_window (evolve_context v (tl_window widget)) = Some (tl_window widget)"
    by (simp add: context_window_def evolve_context_def)
  show ?thesis
    using rangeHandler_not_byUser [where p = p and env = env and now = now and c = c]
      rangeHandler_byUser [where p = p and env = env and now = now and c = c
        and widget = widget and v = v]
      rangeHandler_ignores_query [where p = p and env = env and now = now and c = c and q = q] cw
    by auto
qed


theorem timelineRangeHandler_user_driven_witness:
  "byUser \<lparr>r_start = 32400000, r_end = 36000000, byUser = True\<rparr>
   \<and> fst (snd (timelineRangeHandler example_env 36010000 example_core
                  \<lparr>r_start = 32400000, r_end = 36000000, byUser = True\<rparr>)) =
       [ViewChange (evolve_context example_view \<lparr>w_start = 32400000, w_end = 36000000\<rparr>)]
   \<and> \<not> byUser \<lparr>r_start = 32400000, r_end = 36000000, byUser = False\<rparr>
   \<and> timelineRangeHandler example_env 36010000 example_core
         \<lparr>r_start = 32400000, r_end = 36000000, byUser = False\<rparr> = (example_core, [], None)"
proof -
  let ?widget = "\<lparr>tl_window = \<lparr>w_start = 32400000, w_end = 36000000\<rparr>, tl_selection = []\<rparr>"
  let ?pu = "\<lparr>r_start = 32400000, r_end = 36000000, byUser = True\<rparr>"
  let ?pn = "\<lparr>r_start = 32400000, r_end = 36000000, byUser = False\<rparr>"
  have h: "byUser ?pu \<and> hass example_core \<noteq> None \<and> cameras example_core \<noteq> None
           \<and> timelineConfig example_core \<noteq> None
           \<and> timeline example_core = Some ?widget
           \<and> view example_core = Some example_view"
    by (simp add: example_core_def)
  have n: "\<not> byUser ?pn" by simp
  note t1 = timelineRangeHandler_user_driven
        [where p = ?pu and env = example_env and now = 36010000 and c = example_core
           and widget = ?widget and v = example_view and q = "browseMediaQuery example_env"]
  note t2 = timelineRangeHandler_user_driven
        [where p = ?pn and env = example_env and now = 36010000 and c = example_core
           and widget = ?widget and v = example_view and q = "browseMediaQuery example_env"]
  have a1: "fst (snd (timelineRangeHandler example_env 36010000 example_core ?pu)) =
       [ViewChange (evolve_context example_view (tl_window ?widget))]"
    using mp [OF conjunct2 [OF t1] h] by (rule conjunct1)
  have a2: "timelineRangeHandler example_env 36010000 example_core ?pn = (example_core, [], None)"
    by (rule mp [OF conjunct1 [OF t2] n])
  have w: "tl_window ?widget = \<lparr>w_start = 32400000, w_end = 36000000\<rparr>" by simp
  from h a1 n a2 show ?thesis unfolding w by (intro conjI) (rule conjunct1, assumption+)
qed

section \<open>Thumbnails\<close>

lemma generateThumbnails_frame:
  "timeline (fst (generateThumbnails env c)) = timeline c"
  "view (fst (generateThumbnails env c)) = view c"
  "events (fst (generateThumbnails env c)) = events c"
  "timelineConfig (fst (generateThumbnails env c)) = timelineConfig c"
  by (simp_all add: generateThumbnails_def Let_def split: option.splits)

lemma generateThumbnails_cases:
  assumes "timeline c = Some widget"
  shows "fst (projectThumbnails env (timelineConfig c) (tl_selection widget)
                (ds_get_ordered (dataset (events c)))) = [] \<Longrightarrow>
           generateThumbnails env c = (c, [])"
    and "Some (playlist (fst (projectThumbnails env (timelineConfig c) (tl_selection widget)
                (ds_get_ordered (dataset (events c)))))) = thumbnails c \<Longrightarrow>
           generateThumbnails env c = (c, [])"
    and "fst (projectThumbnails env (timelineConfig c) (tl_selection widget)
                (ds_get_ordered (dataset (events c)))) \<noteq> [] \<Longrightarrow>
         Some (playlist (fst (projectThumbnails env (timelineConfig c) (tl_selection widget)
                (ds_get_ordered (dataset (events c)))))) \<noteq> thumbnails c \<Longrightarrow>
         view c = Some v \<Longrightarrow>
           generateThumbnails env c =
             (c\<lparr>thumbnails := Some (playlist (fst (projectThumbnails env (timelineConfig c)
                   (tl_selection widget) (ds_get_ordered (dataset (events c))))))\<rparr>,
              [ViewChange (evolve_target v
                 (playlist (fst (projectThumbnails env (timelineConfig c) (tl_selection widget)
                    (ds_get_ordered (dataset (events c))))))
                 (if snd (projectThumbnails env (timelineConfig c) (tl_selection widget)
                    (ds_get_ordered (dataset (events c)))) < 0 then None
                  else Some (snd (projectThumbnails env (timelineConfig c) (tl_selection widget)
                    (ds_get_ordered (dataset (events c)))))))])"
  using assms by (simp_all add: generateThumbnails_def Let_def)

lemma snapshot_only_under_clips:
  "projectThumbnails env (Some \<lparr>media = MediaClips, clustering_threshold = t\<rparr>) selected
     [example_item] = ([], - 1)"
  by (simp add: projectThumbnails_def thumbnail_step_def example_item_def)

lemma example_projection:
  "projectThumbnails example_env (timelineConfig example_core) []
     (ds_get_ordered (dataset (events example_core))) = ([], - 1)"
  by (simp add: example_core_def ds_get_ordered_def new_TimelineEventManager_def
      snapshot_only_under_clips)

lemma generateThumbnails_stores_children:
  "thumbnails (fst (generateThumbnails env c)) = thumbnails c \<or>
   (\<exists>cs. cs \<noteq> [] \<and> thumbnails (fst (generateThumbnails env c)) = Some (playlist cs))"
  by (auto simp: generateThumbnails_def Let_def split: option.splits)

text \<open>
  The claim fails where the projection is empty.  The dataset holds one event with only a
  snapshot, the filter is \<open>clips\<close>, and the previous playlist holds a clip: the new
  projection is empty, so the derived playlist differs from the previous one, yet nothing
  is dispatched and the previous playlist stays.
\<close>

theorem generateThumbnails_counterexample:
  "fst (projectThumbnails example_env (timelineConfig example_core) []
          (ds_get_ordered (dataset (events example_core)))) = []
   \<and> Some (playlist []) \<noteq> thumbnails example_core
   \<and> generateThumbnails example_env example_core = (example_core, [])"
proof -
  have t: "timeline example_core =
             Some \<lparr>tl_window = \<lparr>w_start = 32400000, w_end = 36000000\<rparr>, tl_selection = []\<rparr>"
    by (simp add: example_core_def)
  have p: "fst (projectThumbnails example_env (timelineConfig example_core)
             (tl_selection \<lparr>tl_window = \<lparr>w_start = 32400000, w_end = 36000000\<rparr>, tl_selection = []\<rparr>)
             (ds_get_ordered (dataset (events example_core)))) = []"
    by (simp add: example_projection)
  have d: "Some (playlist []) \<noteq> thumbnails example_core"
    by (simp add: example_core_def playlist_def)
  from generateThumbnails_cases(1) [OF t p] d example_projection show ?thesis by simp
qed

text \<open>
  C5 (as amended).  With a widget present, the projection of the dataset is compared
  with the previous playlist by structural equality whenever it holds at least one
  media item: if the two are equal nothing happens; if they differ the new playlist is
  adopted and, with a view present, exactly one view change is dispatched, carrying the
  new playlist and the focus index (none when it is negative).  When the projection holds
  no media item the component is left as it is and nothing is dispatched; this is the
  case for an event that has only a snapshot under the filter \<open>clips\<close>.
\<close>

theorem generateThumbnails_notifies_on_change:
  "(timeline c = Some widget
      \<and> P = projectThumbnails env (timelineConfig c) (tl_selection widget)
              (ds_get_ordered (dataset (events c))) \<longrightarrow>
      (fst P = [] \<longrightarrow> generateThumbnails env c = (c, []))
      \<and> (Some (playlist (fst P)) = thumbnails c \<longrightarrow> generateThumbnails env c = (c, []))
      \<and> (fst P \<noteq> [] \<and> Some (playlist (fst P)) \<noteq> thumbnails c \<and> view c = Some v \<longrightarrow>
           generateThumbnails env c =
             (c\<lparr>thumbnails := Some (playlist (fst P))\<rparr>,
              [ViewChange (evolve_target v (playlist (fst P))
                 (if snd P < 0 then None else Some (snd P)))])))
   \<and> projectThumbnails env (Some \<lparr>media = MediaClips, clustering_threshold = t\<rparr>) selected
        [example_item] = ([], - 1)"
  using generateThumbnails_cases(1) [where c = c and widget = widget and env = env]
    generateThumbnails_cases(2) [where c = c and widget = widget and env = env]
    generateThumbnails_cases(3) [where c = c and widget = widget and env = env and v = v]
    snapshot_only_under_clips [where env = env and t = t and selected = selected]
  by blast

theorem generateThumbnails_notifies_on_change_witness:
  "timeline (example_core\<lparr>timelineConfig := Some \<lparr>media = MediaSnapshots, clustering_threshold = 3\<rparr>\<rparr>) =
     Some \<lparr>tl_window = \<lparr>w_start = 32400000, w_end = 36000000\<rparr>, tl_selection = []\<rparr>
   \<and> fst ([example_snapshot], - 1 :: int) \<noteq> []
   \<and> Some (playlist (fst ([example_snapshot], - 1 :: int))) \<noteq>
       thumbnails (example_core\<lparr>timelineConfig := Some \<lparr>media = MediaSnapshots, clustering_threshold = 3\<rparr>\<rparr>)
   \<and> view (example_core\<lparr>timelineConfig := Some \<lparr>media = MediaSnapshots, clustering_threshold = 3\<rparr>\<rparr>) =
       Some example_view
   \<and> generateThumbnails example_env
        (example_core\<lparr>timelineConfig := Some \<lparr>media = MediaSnapshots, clustering_threshold = 3\<rparr>\<rparr>) =
       (example_core\<lparr>timelineConfig := Some \<lparr>media = MediaSnapshots, clustering_threshold = 3\<rparr>,
                     thumbnails := Some (playlist (fst ([example_snapshot], - 1 :: int)))\<rparr>,
        [ViewChange (evolve_target example_view (playlist (fst ([example_snapshot], - 1 :: int)))
           (if snd ([example_snapshot], - 1 :: int) < 0 then None
            else Some (snd ([example_snapshot], - 1 :: int))))])"
proof -
  let ?c = "example_core\<lparr>timelineConfig := Some \<lparr>media = MediaSnapshots, clustering_threshold = 3\<rparr>\<rparr>"
  let ?widget = "\<lparr>tl_window = \<lparr>w_start = 32400000, w_end = 36000000\<rparr>, tl_selection = []\<rparr>"
  let ?P = "([example_snapshot], - 1 :: int)"
  have ht: "timeline ?c = Some ?widget" by (simp add: example_core_def)
  have hp: "?P = projectThumbnails example_env (timelineConfig ?c) (tl_selection ?widget)
                   (ds_get_ordered (dataset (events ?c)))"
    by (simp add: example_core_def ds_get_ordered_def new_TimelineEventManager_def
        projectThumbnails_def thumbnail_step_def example_item_def example_env_def
        example_snapshot_def)
  have hn: "fst ?P \<noteq> []" by simp
  have hd: "Some (playlist (fst ?P)) \<noteq> thumbnails ?c"
    by (simp add: example_core_def playlist_def example_snapshot_def example_clip_def)
  have hv: "view ?c = Some example_view" by (simp add: example_core_def)
  note t = generateThumbnails_notifies_on_change
      [where c = ?c and widget = ?widget and P = ?P and env = example_env and v = example_view]
  note inner = mp [OF conjunct1 [OF t] conjI [OF ht hp]]
  have a: "generateThumbnails example_env ?c =
       (?c\<lparr>thumbnails := Some (playlist (fst ?P))\<rparr>,
        [ViewChange (evolve_target example_view (playlist (fst ?P))
           (if snd ?P < 0 then None else Some (snd ?P)))])"
    by (rule mp [OF conjunct2 [OF conjunct2 [OF inner]] conjI [OF hn conjI [OF hd hv]]])
  from ht hn hd hv a show ?thesis by (intro conjI)
qed

section \<open>Selection\<close>

text \<open>
  C10.  When no thumbnail playlist has been generated yet, or the stored playlist has no
  \<^verbatim>\<open>children\<close> field, the selection handler leaves the component as it is and
  dispatches nothing: no view change, no \<^verbatim>\<open>thumbnails:open\<close>, no \<^verbatim>\<open>thumbnails:close\<close>.
\<close>

theorem timelineSelectHandler_without_playlist:
  "(thumbnails c = None \<longrightarrow> timelineSelectHandler c items = (c, []))
   \<and> (thumbnails c = Some th \<and> children th = None \<longrightarrow> timelineSelectHandler c items = (c, []))"
  by (simp add: timelineSelectHandler_def)

theorem timelineSelectHandler_without_playlist_witness:
  "thumbnails (example_core\<lparr>thumbnails := None\<rparr>) = None
   \<and> timelineSelectHandler (example_core\<lparr>thumbnails := None\<rparr>) [''e1''] =
       (example_core\<lparr>thumbnails := None\<rparr>, [])
   \<and> thumbnails (example_core\<lparr>thumbnails := Some example_clip\<rparr>) = Some example_clip
   \<and> children example_clip = None
   \<and> timelineSelectHandler (example_core\<lparr>thumbnails := Some example_clip\<rparr>) [''e1''] =
       (example_core\<lparr>thumbnails := Some example_clip\<rparr>, [])"
proof -
  have h1: "thumbnails (example_core\<lparr>thumbnails := None\<rparr>) = None" by simp
  have h2: "thumbnails (example_core\<lparr>thumbnails := Some example_clip\<rparr>) = Some example_clip"
    by simp
  have h3: "children example_clip = None" by (simp add: example_clip_def)
  note t1 = timelineSelectHandler_without_playlist
      [where c = "example_core\<lparr>thumbnails := None\<rparr>" and items = "[''e1'']" and th = example_clip]
  note t2 = timelineSelectHandler_without_playlist
      [where c = "example_core\<lparr>thumbnails := Some example_clip\<rparr>" and items = "[''e1'']"
         and th = example_clip]
  have a1: "timelineSelectHandler (example_core\<lparr>thumbnails := None\<rparr>) [''e1''] =
       (example_core\<lparr>thumbnails := None\<rparr>, [])"
    by (rule mp [OF conjunct1 [OF t1] h1])
  have a2: "timelineSelectHandler (example_core\<lparr>thumbnails := Some example_clip\<rparr>) [''e1''] =
       (example_core\<lparr>thumbnails := Some example_clip\<rparr>, [])"
    by (rule mp [OF conjunct2 [OF t2] conjI [OF h2 h3]])
  from h1 a1 h2 h3 a2 show ?thesis by (intro conjI)
qed

section \<open>Placing the window of the widget\<close>

lemma await_fetch_result:
  "await_fetch env c p =
     (if some_nullish env (arrival env (promises p))
      then Inl (TypeError,
             (c\<lparr>events := (events c)
                 \<lparr>dataset := merges (core_callbacks env c)
                    (resolved_sources env (arrival env (promises p))) (dataset (events c))\<rparr>\<rparr>,
              rejected_messages env (arrival env (promises p))))
      else Inr (c\<lparr>events := (events c)
                 \<lparr>dataset := merges (core_callbacks env c)
                    (resolved_sources env (arrival env (promises p))) (dataset (events c))\<rparr>\<rparr>,
              rejected_messages env (arrival env (promises p))))"
  by (simp add: await_fetch_def promise_all_result settled_def)

lemma placeWindow_result:
  assumes "timeline c = Some widget" and "view c = Some v"
  shows "\<exists>c'. placeWindow c event ws we = Inr c' \<and>
           timeline c' =
             Some ((setSelection widget (case event of Some e \<Rightarrow> [event_id e] | None \<Rightarrow> []))
                     \<lparr>tl_window := placed_window v event (tl_window widget) (ws, we)\<rparr>)"
  using assms
  by (simp add: placeWindow_def Let_def setWindow_def setSelection_def placed_window_def
      split: option.splits)













section \<open>What resets the cache\<close>

lemma window_kept_refl: "window_kept m m"
  by (simp add: window_kept_def)

lemma window_kept_trans: "window_kept a b \<Longrightarrow> window_kept b c \<Longrightarrow> window_kept a c"
  by (simp add: window_kept_def)

lemma never_less_refl: "never_less m m"
  by (simp add: never_less_def extends_refl window_kept_refl)

lemma never_less_trans: "never_less a b \<Longrightarrow> never_less b c \<Longrightarrow> never_less a c"
  unfolding never_less_def using extends_trans window_kept_trans by blast

lemma window_kept_widen: "window_kept m (widen m start endo)"
  by (simp add: window_kept_def widen_def Let_def split: option.splits)

lemma never_less_begin: "never_less m (fst (fetchEvents_begin env now cams mda start endo m))"
proof -
  have "window_kept m (fst (fetchEvents_begin env now cams mda start endo m))"
    using window_kept_widen [of m start endo]
    by (simp add: fetchEvents_begin_def Let_def window_kept_def)
  then show ?thesis by (simp add: never_less_def dataset_begin extends_refl)
qed

lemma never_less_if_begin:
  "never_less m (fst (fetchEventsIfNecessary_begin env now cams mda s e m))"
  by (simp add: fetchEventsIfNecessary_begin_def Let_def never_less_refl never_less_begin)

lemma never_less_dataset:
  "extends (dataset m) ds \<Longrightarrow> never_less m (m\<lparr>dataset := ds\<rparr>)"
  by (simp add: never_less_def window_kept_def)

lemma never_less_merges: "never_less m (m\<lparr>dataset := merges cb ms (dataset m)\<rparr>)"
  using grows_merges [of "dataset m" cb ms] by (simp add: never_less_dataset grows_def)

lemma never_less_fetchEvents:
  "fetchEvents env cb now cams mda start endo m = Inr r \<Longrightarrow> never_less m (fst r)"
  "fetchEvents env cb now cams mda start endo m = Inl f \<Longrightarrow> never_less m (fst (snd f))"
proof -
  let ?b = "fetchEvents_begin env now cams mda start endo m"
  let ?m = "(fst ?b)\<lparr>dataset := merges cb (resolved_sources env (arrival env (snd ?b)))
                                   (dataset (fst ?b))\<rparr>"
  have n: "never_less m ?m"
    by (rule never_less_trans [OF never_less_begin never_less_merges])
  {
    assume "fetchEvents env cb now cams mda start endo m = Inr r"
    then have "fst r = ?m" by (auto simp: fetchEvents_result split: if_splits)
    then show "never_less m (fst r)" using n by simp
  }
  {
    assume "fetchEvents env cb now cams mda start endo m = Inl f"
    then have "fst (snd f) = ?m" by (auto simp: fetchEvents_result split: if_splits)
    then show "never_less m (fst (snd f))" using n by simp
  }
qed

lemma never_less_await:
  "await_fetch env c p = Inr r \<Longrightarrow> never_less (events c) (events (fst r))"
  "await_fetch env c p = Inl f \<Longrightarrow> never_less (events c) (events (fst (snd f)))"
  using never_less_merges [of "events c"]
  by (auto simp: await_fetch_result split: if_splits)

lemma never_less_generateThumbnails:
  "never_less (events c) (events (fst (generateThumbnails env c)))"
  by (simp add: generateThumbnails_frame never_less_refl)

lemma never_less_select: "never_less (events c) (events (fst (timelineSelectHandler c items)))"
  by (simp add: timelineSelectHandler_def Let_def never_less_refl split: option.splits)

lemma never_less_rangeHandler:
  "never_less (events c) (events (fst (timelineRangeHandler env now c p)))"
  by (simp add: timelineRangeHandler_def Let_def never_less_refl never_less_if_begin)

lemma never_less_rangeHandler_then:
  "timelineRangeHandler_then env c f = Inr r \<Longrightarrow> never_less (events c) (events (fst r))"
proof -
  assume a: "timelineRangeHandler_then env c f = Inr r"
  then obtain r1 where r1: "await_fetch env c f = Inr r1"
    by (cases "await_fetch env c f") (simp_all add: timelineRangeHandler_then_def)
  have n1: "never_less (events c) (events (fst r1))" by (rule never_less_await(1) [OF r1])
  show ?thesis
  proof (cases "fetched f")
    case True
    then have "fst r = fst (generateThumbnails env (fst r1))"
      using a r1 by (auto simp: timelineRangeHandler_then_def Let_def)
    then show ?thesis using n1 by (simp add: generateThumbnails_frame)
  next
    case False
    then have "r = r1" using a r1 by (simp add: timelineRangeHandler_then_def)
    then show ?thesis using n1 by simp
  qed
qed

lemma never_less_rangeHandler_then_rejected:
  "timelineRangeHandler_then env c f = Inl r \<Longrightarrow> never_less (events c) (events (fst (snd r)))"
proof -
  assume a: "timelineRangeHandler_then env c f = Inl r"
  then have "await_fetch env c f = Inl r"
    by (cases "await_fetch env c f")
      (simp_all add: timelineRangeHandler_then_def Let_def split: if_splits)
  then show ?thesis by (rule never_less_await(2))
qed

lemma never_less_updateOnly: "never_less m (m\<lparr>dataset := ds_updateOnly it (dataset m)\<rparr>)"
  by (simp add: never_less_dataset ds_updateOnly_def extends_modify)

lemma never_less_placeWindow:
  "placeWindow c event ws we = Inr c' \<Longrightarrow> never_less (events c) (events c')"
  using never_less_updateOnly [of "events c"]
  by (auto simp: placeWindow_def Let_def never_less_refl split: option.splits if_splits)

lemma never_less_placeWindow_rejected:
  "placeWindow c event ws we = Inl f \<Longrightarrow> events (snd f) = events c"
  by (auto simp: placeWindow_def Let_def split: option.splits if_splits)

lemma never_less_resume:
  "updateTimelineFromView_resume env c u = Inr r \<Longrightarrow> never_less (events c) (events (fst r))"
proof -
  assume a: "updateTimelineFromView_resume env c u = Inr r"
  then obtain r1 where r1: "await_fetch env c (vu_fetch u) = Inr r1"
    by (cases "await_fetch env c (vu_fetch u)") (simp_all add: updateTimelineFromView_resume_def)
  have n1: "never_less (events c) (events (fst r1))" by (rule never_less_await(1) [OF r1])
  define g where "g = (if fetched (vu_fetch u) then generateThumbnails env (fst r1) else (fst r1, []))"
  have eg: "events (fst g) = events (fst r1)" by (simp add: g_def generateThumbnails_frame)
  from a r1 have "placeWindow (fst g) (vu_event u) (vu_windowStart u) (vu_windowEnd u) = Inr (fst r)"
    by (auto simp: updateTimelineFromView_resume_def Let_def g_def split: sum.splits)
  from never_less_placeWindow [OF this] have "never_less (events (fst r1)) (events (fst r))"
    by (simp add: eg)
  with n1 show ?thesis by (rule never_less_trans)
qed

lemma never_less_resume_rejected:
  "updateTimelineFromView_resume env c u = Inl r \<Longrightarrow>
     never_less (events c) (events (fst (snd r)))"
proof -
  assume a: "updateTimelineFromView_resume env c u = Inl r"
  show ?thesis
  proof (cases "await_fetch env c (vu_fetch u)")
    case (Inl f)
    with a have "r = f" by (simp add: updateTimelineFromView_resume_def)
    with Inl show ?thesis by (simp add: never_less_await(2))
  next
    case (Inr r1)
    have n1: "never_less (events c) (events (fst r1))" by (rule never_less_await(1) [OF Inr])
    define g where
      "g = (if fetched (vu_fetch u) then generateThumbnails env (fst r1) else (fst r1, []))"
    have eg: "events (fst g) = events (fst r1)" by (simp add: g_def generateThumbnails_frame)
    from a Inr obtain f where
      f: "placeWindow (fst g) (vu_event u) (vu_windowStart u) (vu_windowEnd u) = Inl f"
      and r: "fst (snd r) = snd f"
      by (auto simp: updateTimelineFromView_resume_def Let_def g_def split: sum.splits)
    from never_less_placeWindow_rejected [OF f] have "events (fst (snd r)) = events (fst r1)"
      by (simp add: r eg)
    with n1 show ?thesis by simp
  qed
qed

lemma never_less_view_begin:
  "never_less (events c) (events (fst (updateTimelineFromView_begin env now c)))"
  by (simp add: updateTimelineFromView_begin_def Let_def never_less_refl never_less_if_begin)

lemma updated_shape:
  "\<exists>c2. events c2 =
           events (if PCameras \<in> ch then c\<lparr>events := clear (events c), timeline := None\<rparr> else c)
        \<and> updated env now ch c =
           (if PView \<in> ch then updateTimelineFromView_begin env now c2 else (c2, None))"
proof -
  define c1 where
    "c1 = (if PCameras \<in> ch then c\<lparr>events := clear (events c), timeline := None\<rparr> else c)"
  define c2 where
    "c2 = (if PTimelineConfig \<in> ch \<and> refTimeline c1 \<and> getOptions now c1 \<noteq> None
           then (case timeline c1 of
                   Some widget \<Rightarrow> c1
                 | None \<Rightarrow> c1\<lparr>timeline := Some (new_Timeline (the (getOptions now c1)))\<rparr>)
           else c1)"
  have e: "events c2 = events c1" by (simp add: c2_def split: option.splits)
  have u: "updated env now ch c =
             (if PView \<in> ch then updateTimelineFromView_begin env now c2 else (c2, None))"
    by (simp only: updated_def Let_def c2_def c1_def)
  from e u show ?thesis unfolding c1_def by blast
qed

lemma updated_keeps:
  assumes "PCameras \<notin> ch"
  shows "never_less (events c) (events (fst (updated env now ch c)))"
proof -
  from updated_shape [of ch c env now] assms
  obtain c2 where e2: "events c2 = events c"
    and u: "updated env now ch c =
              (if PView \<in> ch then updateTimelineFromView_begin env now c2 else (c2, None))"
    by auto
  have "never_less (events c2) (events (fst (updated env now ch c)))"
    unfolding u by (simp add: never_less_refl never_less_view_begin)
  then show ?thesis by (simp add: e2)
qed

lemma updated_clears:
  assumes "PCameras \<in> ch"
  shows "dataset (events (fst (updated env now ch c))) = []"
    and "window_kept (events c) (events (fst (updated env now ch c)))"
proof -
  from updated_shape [of ch c env now] assms
  obtain c2 where e2: "events c2 = clear (events c)"
    and u: "updated env now ch c =
              (if PView \<in> ch then updateTimelineFromView_begin env now c2 else (c2, None))"
    by auto
  have w1: "window_kept (events c) (events c2)" by (simp add: e2 clear_def window_kept_def)
  have d1: "dataset (events c2) = []" by (simp add: e2 clear_def ds_clear_def)
  have n: "never_less (events c2) (events (fst (updated env now ch c)))"
    unfolding u by (simp add: never_less_refl never_less_view_begin)
  have "dataset (events (fst (updated env now ch c))) = dataset (events c2)"
    unfolding u
    by (simp add: updateTimelineFromView_begin_def Let_def dataset_if_begin)
  then show "dataset (events (fst (updated env now ch c))) = []" by (simp add: d1)
  from n have "window_kept (events c2) (events (fst (updated env now ch c)))"
    by (simp add: never_less_def)
  with w1 show "window_kept (events c) (events (fst (updated env now ch c)))"
    by (rule window_kept_trans)
qed

lemma updated_clears_only_dataset:
  "PCameras \<in> ch \<Longrightarrow> PView \<notin> ch \<Longrightarrow>
     events (fst (updated env now ch c)) = (events c)\<lparr>dataset := []\<rparr>"
  by (simp add: updated_def Let_def clear_def ds_clear_def split: option.splits)

lemma rangeHandler_then_resolves:
  "\<not> some_nullish env (arrival env (promises f)) \<Longrightarrow>
     \<exists>r. timelineRangeHandler_then env c f = Inr r"
  by (cases "fetched f") (simp_all add: timelineRangeHandler_then_def await_fetch_result Let_def)

lemma rangeHandler_then_rejects:
  "some_nullish env (arrival env (promises f)) \<Longrightarrow>
     \<exists>r. timelineRangeHandler_then env c f = Inl r"
  by (simp add: timelineRangeHandler_then_def await_fetch_result)

lemma resume_rejects:
  "some_nullish env (arrival env (promises (vu_fetch u))) \<Longrightarrow>
     \<exists>r. updateTimelineFromView_resume env c u = Inl r"
  by (simp add: updateTimelineFromView_resume_def await_fetch_result)

lemma resume_resolves:
  assumes "timeline c = Some widget" and "view c = Some v"
    and "\<not> some_nullish env (arrival env (promises (vu_fetch u)))"
  shows "\<exists>r. updateTimelineFromView_resume env c u = Inr r"
proof -
  obtain r1 where r1: "await_fetch env c (vu_fetch u) = Inr r1"
    and t1: "timeline (fst r1) = Some widget" and v1: "view (fst r1) = Some v"
    using assms by (simp add: await_fetch_result)
  define g where "g = (if fetched (vu_fetch u) then generateThumbnails env (fst r1) else (fst r1, []))"
  have tg: "timeline (fst g) = Some widget" and vg: "view (fst g) = Some v"
    using t1 v1 by (simp_all add: g_def generateThumbnails_frame)
  from placeWindow_result [OF tg vg, of "vu_event u" "vu_windowStart u" "vu_windowEnd u"]
  obtain c' where c': "placeWindow (fst g) (vu_event u) (vu_windowStart u) (vu_windowEnd u) = Inr c'"
    by blast
  have "updateTimelineFromView_resume env c u = Inr (c', snd r1 @ snd g)"
    by (simp only: updateTimelineFromView_resume_def Let_def r1 sum.case g_def [symmetric] c')
  then show ?thesis by (rule exI)
qed

text \<open>
  The claim fails on the window fields.  When the cameras change on a component whose
  manager has fetched [10:00, 11:00] at 10:00:05, the dataset is emptied, but the earliest
  date, the latest date, the fetch date and the threshold are what they were.
\<close>

theorem updated_cameras_counterexample:
  "dataset (events (fst (updated example_env 36010000 {PCameras} example_core))) = []
   \<and> dateStart (events (fst (updated example_env 36010000 {PCameras} example_core))) = Some 36000000
   \<and> dateEnd (events (fst (updated example_env 36010000 {PCameras} example_core))) = Some 39600000
   \<and> dateFetch (events (fst (updated example_env 36010000 {PCameras} example_core))) = Some 36005000
   \<and> maxAgeSeconds (events (fst (updated example_env 36010000 {PCameras} example_core))) = 10"
proof -
  have "events (fst (updated example_env 36010000 {PCameras} example_core)) =
          (events example_core)\<lparr>dataset := []\<rparr>"
    by (rule updated_clears_only_dataset) simp_all
  then show ?thesis
    by (simp add: example_core_def new_TimelineEventManager_def
        TIMELINE_EVENT_MANAGER_MAX_AGE_SECONDS_def)
qed

text \<open>
  C3 (as amended).  When the set of cameras changes, the dataset is emptied; the four
  fields of the coverage window are not cleared: a field that was set stays set and the
  threshold is unchanged, and unless the view changes in the same update they keep their
  very values.  No operation other than a camera-set change empties the dataset: an
  update without a camera change, the range handler and its continuation, a view update,
  the selection handler, the thumbnail projection and a fetch, whether they resolve or
  reject, all keep every identifier of the dataset in place, and none of them unsets a
  field of the coverage window.
\<close>

theorem only_camera_change_empties_dataset:
  "(PCameras \<in> ch \<longrightarrow>
      dataset (events (fst (updated env now ch c))) = []
      \<and> window_kept (events c) (events (fst (updated env now ch c))))
   \<and> (PCameras \<in> ch \<and> PView \<notin> ch \<longrightarrow>
      events (fst (updated env now ch c)) = (events c)\<lparr>dataset := []\<rparr>)
   \<and> (PCameras \<notin> ch \<longrightarrow> never_less (events c) (events (fst (updated env now ch c))))
   \<and> never_less (events c) (events (fst (timelineRangeHandler env now c p)))
   \<and> (\<forall>r. timelineRangeHandler_then env c f = Inr r \<longrightarrow> never_less (events c) (events (fst r)))
   \<and> (\<forall>r. timelineRangeHandler_then env c f = Inl r \<longrightarrow>
         never_less (events c) (events (fst (snd r))))
   \<and> never_less (events c) (events (fst (updateTimelineFromView_begin env now c)))
   \<and> (\<forall>r. updateTimelineFromView_resume env c u = Inr r \<longrightarrow> never_less (events c) (events (fst r)))
   \<and> (\<forall>r. updateTimelineFromView_resume env c u = Inl r \<longrightarrow>
         never_less (events c) (events (fst (snd r))))
   \<and> never_less (events c) (events (fst (timelineSelectHandler c items)))
   \<and> never_less (events c) (events (fst (generateThumbnails env c)))
   \<and> (\<forall>r. fetchEvents env cb now cams mda start endo m = Inr r \<longrightarrow> never_less m (fst r))
   \<and> (\<forall>r. fetchEvents env cb now cams mda start endo m = Inl r \<longrightarrow>
         never_less m (fst (snd r)))"
  using updated_clears(1) [where ch = ch and env = env and now = now and c = c]
    updated_clears(2) [where ch = ch and env = env and now = now and c = c]
    updated_clears_only_dataset [where ch = ch and env = env and now = now and c = c]
    updated_keeps [where ch = ch and env = env and now = now and c = c]
    never_less_rangeHandler [where env = env and now = now and c = c and p = p]
    never_less_rangeHandler_then [where env = env and c = c and f = f]
    never_less_rangeHandler_then_rejected [where env = env and c = c and f = f]
    never_less_view_begin [where env = env and now = now and c = c]
    never_less_resume [where env = env and c = c and u = u]
    never_less_resume_rejected [where env = env and c = c and u = u]
    never_less_select [where c = c and items = items]
    never_less_generateThumbnails [where env = env and c = c]
    never_less_fetchEvents(1) [where env = env and cb = cb and now = now and cams = cams
      and mda = mda and start = start and endo = endo and m = m]
    never_less_fetchEvents(2) [where env = env and cb = cb and now = now and cams = cams
      and mda = mda and start = start and endo = endo and m = m]
  by blast

theorem only_camera_change_empties_dataset_witness:
  "PCameras \<in> {PCameras} \<and> PView \<notin> {PCameras}
   \<and> dataset (events (fst (updated example_env 36010000 {PCameras} example_core))) = []
   \<and> window_kept (events example_core)
        (events (fst (updated example_env 36010000 {PCameras} example_core)))
   \<and> events (fst (updated example_env 36010000 {PCameras} example_core)) =
       (events example_core)\<lparr>dataset := []\<rparr>
   \<and> PCameras \<notin> {PView}
   \<and> never_less (events example_core)
        (events (fst (updated example_env 36010000 {PView} example_core)))
   \<and> (\<exists>r. timelineRangeHandler_then example_env example_core
             \<lparr>promises = [Some (''front-door'',
                 \<lparr>q_base = ''front'', q_before = 39600, q_after = 36000, q_unlimited = True,
                  q_mediaType = MediaClips\<rparr>)], fetched = True\<rparr> = Inr r
          \<and> never_less (events example_core) (events (fst r)))
   \<and> (\<exists>r. timelineRangeHandler_then nullish_env example_core
             \<lparr>promises = [Some (''front-door'',
                 \<lparr>q_base = ''front'', q_before = 39600, q_after = 36000, q_unlimited = True,
                  q_mediaType = MediaClips\<rparr>)], fetched = True\<rparr> = Inl r
          \<and> never_less (events example_core) (events (fst (snd r))))
   \<and> (\<exists>r. updateTimelineFromView_resume example_env example_core
             \<lparr>vu_event = None, vu_windowStart = 32410000, vu_windowEnd = 36010000,
              vu_fetch = \<lparr>promises = [Some (''front-door'',
                 \<lparr>q_base = ''front'', q_before = 39600, q_after = 36000, q_unlimited = True,
                  q_mediaType = MediaClips\<rparr>)], fetched = True\<rparr>\<rparr> = Inr r
          \<and> never_less (events example_core) (events (fst r)))
   \<and> (\<exists>r. updateTimelineFromView_resume nullish_env example_core
             \<lparr>vu_event = None, vu_windowStart = 32410000, vu_windowEnd = 36010000,
              vu_fetch = \<lparr>promises = [Some (''front-door'',
                 \<lparr>q_base = ''front'', q_before = 39600, q_after = 36000, q_unlimited = True,
                  q_mediaType = MediaClips\<rparr>)], fetched = True\<rparr>\<rparr> = Inl r
          \<and> never_less (events example_core) (events (fst (snd r))))
   \<and> (\<exists>r. fetchEvents example_env no_callbacks 36010000
             [(''back-door'', ''back''), (''front-door'', ''front'')] MediaAll
             (Some 36000000) (Some 39600000) new_TimelineEventManager = Inr r
          \<and> never_less new_TimelineEventManager (fst r))
   \<and> (\<exists>r. fetchEvents nullish_env no_callbacks 36010000
             [(''back-door'', ''back''), (''front-door'', ''front'')] MediaAll
             (Some 36000000) (Some 39600000) new_TimelineEventManager = Inl r
          \<and> never_less new_TimelineEventManager (fst (snd r)))"
proof -
  let ?q = "Some (''front-door'',
                 \<lparr>q_base = ''front'', q_before = 39600, q_after = 36000, q_unlimited = True,
                  q_mediaType = MediaClips\<rparr>)"
  let ?f = "\<lparr>promises = [?q], fetched = True\<rparr>"
  let ?u = "\<lparr>vu_event = None, vu_windowStart = 32410000, vu_windowEnd = 36010000,
              vu_fetch = ?f\<rparr>"
  let ?cams = "[(''back-door'', ''back''), (''front-door'', ''front'')]"
  note t1 = only_camera_change_empties_dataset
      [where ch = "{PCameras}" and env = example_env and now = 36010000 and c = example_core
         and f = ?f and u = ?u and cb = no_callbacks and cams = ?cams and mda = MediaAll
         and start = "Some 36000000" and endo = "Some 39600000" and m = new_TimelineEventManager]
  note t2 = only_camera_change_empties_dataset
      [where ch = "{PView}" and env = example_env and now = 36010000 and c = example_core
         and f = ?f and u = ?u and cb = no_callbacks and cams = ?cams and mda = MediaAll
         and start = "Some 36000000" and endo = "Some 39600000" and m = new_TimelineEventManager]
  note t3 = only_camera_change_empties_dataset
      [where ch = "{PView}" and env = nullish_env and now = 36010000 and c = example_core
         and f = ?f and u = ?u and cb = no_callbacks and cams = ?cams and mda = MediaAll
         and start = "Some 36000000" and endo = "Some 39600000" and m = new_TimelineEventManager]
  have h1: "PCameras \<in> {PCameras}" by simp
  have h2: "PView \<notin> {PCameras}" by simp
  have h3: "PCameras \<notin> {PView}" by simp
  have tl: "timeline example_core =
              Some \<lparr>tl_window = \<lparr>w_start = 32400000, w_end = 36000000\<rparr>, tl_selection = []\<rparr>"
    and vw: "view example_core = Some example_view"
    by (simp_all add: example_core_def)
  have ok: "\<not> some_nullish example_env (arrival example_env [?q])"
    by (simp add: some_nullish_def rejects_nullish_def example_env_def)
  have ko: "some_nullish nullish_env (arrival nullish_env [?q])"
    by (simp add: some_nullish_def rejects_nullish_def nullish_env_def example_env_def)
  have okf: "\<not> some_nullish example_env (arrival example_env (promises ?f))"
    and oku: "\<not> some_nullish example_env (arrival example_env (promises (vu_fetch ?u)))"
    using ok by simp_all
  have kof: "some_nullish nullish_env (arrival nullish_env (promises ?f))"
    and kou: "some_nullish nullish_env (arrival nullish_env (promises (vu_fetch ?u)))"
    using ko by simp_all
  obtain r1 where r1: "timelineRangeHandler_then example_env example_core ?f = Inr r1"
    using rangeHandler_then_resolves [OF okf, of example_core] by blast
  obtain r1n where r1n: "timelineRangeHandler_then nullish_env example_core ?f = Inl r1n"
    using rangeHandler_then_rejects [OF kof, of example_core] by blast
  obtain r2 where r2: "updateTimelineFromView_resume example_env example_core ?u = Inr r2"
    using resume_resolves [OF tl vw oku] by blast
  obtain r2n where r2n: "updateTimelineFromView_resume nullish_env example_core ?u = Inl r2n"
    using resume_rejects [OF kou, of example_core] by blast
  have nb: "\<not> some_nullish example_env (arrival example_env
              (snd (fetchEvents_begin example_env 36010000 ?cams MediaAll
                     (Some 36000000) (Some 39600000) new_TimelineEventManager)))"
    by (rule rejects_with_value_none) (simp add: rejects_with_value_def example_env_def)
  obtain r3 where r3: "fetchEvents example_env no_callbacks 36010000 ?cams MediaAll
             (Some 36000000) (Some 39600000) new_TimelineEventManager = Inr r3"
    using nb by (simp add: fetchEvents_result)
  have kb: "some_nullish nullish_env (arrival nullish_env
              (snd (fetchEvents_begin nullish_env 36010000 ?cams MediaAll
                     (Some 36000000) (Some 39600000) new_TimelineEventManager)))"
    by (simp add: fetchEvents_begin_def Let_def fetchCameraEvents_issue_def media_kinds_def
        some_nullish_def rejects_nullish_def nullish_env_def example_env_def widen_def
        new_TimelineEventManager_def)
  obtain r3n where r3n: "fetchEvents nullish_env no_callbacks 36010000 ?cams MediaAll
             (Some 36000000) (Some 39600000) new_TimelineEventManager = Inl r3n"
    using kb by (simp add: fetchEvents_result)
  from t1 h1 have a1: "dataset (events (fst (updated example_env 36010000 {PCameras} example_core))) = []"
    and a2: "window_kept (events example_core)
        (events (fst (updated example_env 36010000 {PCameras} example_core)))"
    by blast+
  from t1 h1 h2 have a3: "events (fst (updated example_env 36010000 {PCameras} example_core)) =
       (events example_core)\<lparr>dataset := []\<rparr>"
    by blast
  from t2 h3 have a4: "never_less (events example_core)
        (events (fst (updated example_env 36010000 {PView} example_core)))"
    by blast
  from t1 r1 have a5: "\<exists>r. timelineRangeHandler_then example_env example_core ?f = Inr r
          \<and> never_less (events example_core) (events (fst r))"
    by blast
  from t3 r1n have a5n: "\<exists>r. timelineRangeHandler_then nullish_env example_core ?f = Inl r
          \<and> never_less (events example_core) (events (fst (snd r)))"
    by blast
  from t1 r2 have a6: "\<exists>r. updateTimelineFromView_resume example_env example_core ?u = Inr r
          \<and> never_less (events example_core) (events (fst r))"
    by blast
  from t3 r2n have a6n: "\<exists>r. updateTimelineFromView_resume nullish_env example_core ?u = Inl r
          \<and> never_less (events example_core) (events (fst (snd r)))"
    by blast
  from t1 r3 have a7: "\<exists>r. fetchEvents example_env no_callbacks 36010000 ?cams MediaAll
             (Some 36000000) (Some 39600000) new_TimelineEventManager = Inr r
          \<and> never_less new_TimelineEventManager (fst r)"
    by blast
  from t3 r3n have a7n: "\<exists>r. fetchEvents nullish_env no_callbacks 36010000 ?cams MediaAll
             (Some 36000000) (Some 39600000) new_TimelineEventManager = Inl r
          \<and> never_less new_TimelineEventManager (fst (snd r))"
    by blast
  show ?thesis
    by (rule conjI [OF h1 conjI [OF h2 conjI [OF a1 conjI [OF a2 conjI [OF a3 conjI [OF h3
          conjI [OF a4 conjI [OF a5 conjI [OF a5n conjI [OF a6 conjI [OF a6n
          conjI [OF a7 a7n]]]]]]]]]]]])
qed

end
